theory Spec2Isabelle
  imports Complex_Main "HOL-Library.Multiset" "HOL-Library.Log_Nat"
begin

section \<open>Strings\<close>

text \<open>
  Ingredient lines are JavaScript strings. They are modelled as lists of characters, a
  character being a code unit below 256, and the string primitives the pipeline uses (\<open>trim\<close>,
  \<open>toLowerCase\<close>, \<open>includes\<close> (here \<open>includesStr\<close>), \<open>endsWith\<close>, \<open>split\<close>) are written out for
  such text. The white space of \<open>\s\<close> and \<open>trim\<close> is space, tab, line feed, vertical tab, form
  feed, carriage return and the no-break space; the letters of \<open>[a-z]\<close> under the \<open>i\<close> flag are
  \<open>a-z\<close> and \<open>A-Z\<close>; and the line terminators that \<open>.\<close> refuses are line feed and carriage
  return.
\<close>

definition isSpace :: "char \<Rightarrow> bool" where
  "isSpace c = (c \<in> set [CHR '' '', CHR 0x09, CHR 0x0A, CHR 0x0B, CHR 0x0C, CHR 0x0D, CHR 0xA0])"

definition isLineTerminator :: "char \<Rightarrow> bool" where
  "isLineTerminator c = (c \<in> set [CHR 0x0A, CHR 0x0D])"

definition isDigit :: "char \<Rightarrow> bool" where
  "isDigit c = (c \<in> set ''0123456789'')"

definition lowerLetters :: string where
  "lowerLetters = ''abcdefghijklmnopqrstuvwxyz''"

definition upperLetters :: string where
  "upperLetters = ''ABCDEFGHIJKLMNOPQRSTUVWXYZ''"

definition isLetter :: "char \<Rightarrow> bool" where
  "isLetter c = (c \<in> set lowerLetters \<or> c \<in> set upperLetters)"

text \<open>
  The letters above 127 (\<open>digit7\<close> is the highest bit of a character) that have both cases
  below 256: the capitals \<open>0xC0\<close> to \<open>0xDE\<close> without the multiplication sign, and the small
  letters 32 places further. \<open>toUpperCase\<close>
  turns the sharp s (\<open>0xDF\<close>) into \<open>SS\<close>. The capitals of \<open>0xB5\<close> and \<open>0xFF\<close> are code units
  above 255, which a list of characters cannot hold; \<open>toUpperChar\<close> leaves these two as
  they are.
\<close>

definition upperLatin1 :: string where
  "upperLatin1 =
     [CHR 0xC0, CHR 0xC1, CHR 0xC2, CHR 0xC3, CHR 0xC4, CHR 0xC5, CHR 0xC6, CHR 0xC7,
      CHR 0xC8, CHR 0xC9, CHR 0xCA, CHR 0xCB, CHR 0xCC, CHR 0xCD, CHR 0xCE, CHR 0xCF,
      CHR 0xD0, CHR 0xD1, CHR 0xD2, CHR 0xD3, CHR 0xD4, CHR 0xD5, CHR 0xD6,
      CHR 0xD8, CHR 0xD9, CHR 0xDA, CHR 0xDB, CHR 0xDC, CHR 0xDD, CHR 0xDE]"

definition lowerLatin1 :: string where
  "lowerLatin1 =
     [CHR 0xE0, CHR 0xE1, CHR 0xE2, CHR 0xE3, CHR 0xE4, CHR 0xE5, CHR 0xE6, CHR 0xE7,
      CHR 0xE8, CHR 0xE9, CHR 0xEA, CHR 0xEB, CHR 0xEC, CHR 0xED, CHR 0xEE, CHR 0xEF,
      CHR 0xF0, CHR 0xF1, CHR 0xF2, CHR 0xF3, CHR 0xF4, CHR 0xF5, CHR 0xF6,
      CHR 0xF8, CHR 0xF9, CHR 0xFA, CHR 0xFB, CHR 0xFC, CHR 0xFD, CHR 0xFE]"

definition toLowerChar :: "char \<Rightarrow> char" where
  "toLowerChar c =
     (case map_of (if digit7 c then zip upperLatin1 lowerLatin1 else zip upperLetters lowerLetters) c of
        Some d \<Rightarrow> d
      | None \<Rightarrow> c)"

definition toUpperChar :: "char \<Rightarrow> string" where
  "toUpperChar c =
     (if c = CHR 0xDF then ''SS''
      else
        (case map_of (if digit7 c then zip lowerLatin1 upperLatin1 else zip lowerLetters upperLetters) c of
           Some d \<Rightarrow> [d]
         | None \<Rightarrow> [c]))"

definition toLowerCase :: "string \<Rightarrow> string" where
  "toLowerCase s = map toLowerChar s"

definition trimStart :: "string \<Rightarrow> string" where
  "trimStart s = dropWhile isSpace s"

definition trim :: "string \<Rightarrow> string" where
  "trim s = rev (dropWhile isSpace (rev (dropWhile isSpace s)))"

fun startsWith :: "string \<Rightarrow> string \<Rightarrow> bool" where
  "startsWith s [] = True"
| "startsWith [] (p # ps) = False"
| "startsWith (c # cs) (p # ps) = (c = p \<and> startsWith cs ps)"

definition endsWith :: "string \<Rightarrow> string \<Rightarrow> bool" where
  "endsWith s p = startsWith (rev s) (rev p)"

fun includesStr :: "string \<Rightarrow> string \<Rightarrow> bool" where
  "includesStr [] p = (p = [])"
| "includesStr (c # cs) p = (startsWith (c # cs) p \<or> includesStr cs p)"

text \<open>
  The building blocks of the regular expressions. \<open>matchLit p s\<close> matches the literal \<open>p\<close>
  (given in lower case) at the start of \<open>s\<close> under the \<open>i\<close> flag and returns the rest;
  \<open>firstLit\<close> is an alternation of literals, tried in the order written; \<open>skipSpaces1\<close> is
  \<open>\s+\<close>, which is greedy, and hands back the text behind the white space.
\<close>

definition matchLit :: "string \<Rightarrow> string \<Rightarrow> string option" where
  "matchLit p s = (if startsWith (toLowerCase s) p then Some (drop (length p) s) else None)"

fun firstLit :: "string list \<Rightarrow> string \<Rightarrow> string option" where
  "firstLit [] s = None"
| "firstLit (p # ps) s = (case matchLit p s of Some r \<Rightarrow> Some r | None \<Rightarrow> firstLit ps s)"

definition skipSpaces1 :: "string \<Rightarrow> string option" where
  "skipSpaces1 s = (case s of [] \<Rightarrow> None | c # cs \<Rightarrow> if isSpace c then Some (dropWhile isSpace cs) else None)"

section \<open>The tables of the parser\<close>

text \<open>
  \<open>NAME_NORMALIZATION_MAP\<close> and \<open>UNIT_MAP\<close> are object literals used as dictionaries: finite
  maps with the keys the literals list, in the order of the source.
\<close>

definition nameEntries :: "(string \<times> string) list" where
  "nameEntries = [
    (''garlic cloves'', ''garlic''),
    (''cloves garlic'', ''garlic''),
    (''clove garlic'', ''garlic''),
    (''green onions'', ''green onions''),
    (''scallions'', ''green onions''),
    (''zucchinis'', ''zucchini''),
    (''zucchini'', ''zucchini''),
    (''zucchini noodles'', ''zucchini''),
    (''red bell pepper'', ''bell pepper''),
    (''yellow bell pepper'', ''bell pepper''),
    (''orange bell pepper'', ''bell pepper''),
    (''green bell pepper'', ''bell pepper''),
    (''bell peppers'', ''bell pepper''),
    (''bell pepper'', ''bell pepper''),
    (''cherry tomatoes'', ''cherry tomatoes''),
    (''cherry tomatoes, halved'', ''cherry tomatoes''),
    (''basil leaves'', ''basil''),
    (''basil'', ''basil''),
    (''feta cheese'', ''feta cheese''),
    (''feta cheese, crumbled'', ''feta cheese''),
    (''parmesan cheese'', ''parmesan cheese''),
    (''grated parmesan cheese'', ''parmesan cheese''),
    (''cooked quinoa'', ''cooked quinoa''),
    (''red lentils'', ''red lentils''),
    (''red lentils, rinsed'', ''red lentils''),
    (''lime'', ''lime''),
    (''lime wedges'', ''lime''),
    (''juice of 1 lime'', ''lime''),
    (''lime juice'', ''lime''),
    (''broccoli florets'', ''broccoli florets''),
    (''fresh ginger'', ''ginger''),
    (''ginger root'', ''ginger''),
    (''apple cider vinegar'', ''apple cider vinegar''),
    (''dried oregano'', ''oregano''),
    (''salt and pepper'', ''salt and pepper''),
    (''salt & pepper'', ''salt and pepper''),
    (''black pepper'', ''black pepper'')]"

definition NAME_NORMALIZATION_MAP :: "string \<rightharpoonup> string" where
  "NAME_NORMALIZATION_MAP = map_of nameEntries"

datatype BaseUnit = Tsp | Tbsp | Cup | Unit | NoUnit

record UnitInfo =
  info_baseUnit :: BaseUnit
  factor :: rat

definition unitEntries :: "(string \<times> UnitInfo) list" where
  "unitEntries = [
    (''tsp'', \<lparr>info_baseUnit = Tsp, factor = 1\<rparr>),
    (''teaspoon'', \<lparr>info_baseUnit = Tsp, factor = 1\<rparr>),
    (''teaspoons'', \<lparr>info_baseUnit = Tsp, factor = 1\<rparr>),
    (''tbsp'', \<lparr>info_baseUnit = Tbsp, factor = 1\<rparr>),
    (''tablespoon'', \<lparr>info_baseUnit = Tbsp, factor = 1\<rparr>),
    (''tablespoons'', \<lparr>info_baseUnit = Tbsp, factor = 1\<rparr>),
    (''cup'', \<lparr>info_baseUnit = Cup, factor = 1\<rparr>),
    (''cups'', \<lparr>info_baseUnit = Cup, factor = 1\<rparr>),
    (''clove'', \<lparr>info_baseUnit = Unit, factor = 1\<rparr>),
    (''cloves'', \<lparr>info_baseUnit = Unit, factor = 1\<rparr>),
    (''lb'', \<lparr>info_baseUnit = Unit, factor = 1\<rparr>),
    (''lbs'', \<lparr>info_baseUnit = Unit, factor = 1\<rparr>),
    (''pound'', \<lparr>info_baseUnit = Unit, factor = 1\<rparr>),
    (''pounds'', \<lparr>info_baseUnit = Unit, factor = 1\<rparr>),
    (''oz'', \<lparr>info_baseUnit = Unit, factor = 1\<rparr>),
    (''ounce'', \<lparr>info_baseUnit = Unit, factor = 1\<rparr>),
    (''ounces'', \<lparr>info_baseUnit = Unit, factor = 1\<rparr>),
    (''can'', \<lparr>info_baseUnit = Unit, factor = 1\<rparr>),
    (''cans'', \<lparr>info_baseUnit = Unit, factor = 1\<rparr>),
    (''head'', \<lparr>info_baseUnit = Unit, factor = 1\<rparr>),
    (''heads'', \<lparr>info_baseUnit = Unit, factor = 1\<rparr>),
    (''bunch'', \<lparr>info_baseUnit = Unit, factor = 1\<rparr>),
    (''bunches'', \<lparr>info_baseUnit = Unit, factor = 1\<rparr>),
    (''fillet'', \<lparr>info_baseUnit = Unit, factor = 1\<rparr>),
    (''fillets'', \<lparr>info_baseUnit = Unit, factor = 1\<rparr>),
    (''breast'', \<lparr>info_baseUnit = Unit, factor = 1\<rparr>),
    (''breasts'', \<lparr>info_baseUnit = Unit, factor = 1\<rparr>),
    ('''', \<lparr>info_baseUnit = NoUnit, factor = 1\<rparr>)]"

definition UNIT_MAP :: "string \<rightharpoonup> UnitInfo" where
  "UNIT_MAP = map_of unitEntries"

text \<open>
  The tables are read with \<open>table[key]\<close>, which also finds what an object literal inherits
  from \<open>Object.prototype\<close>. The keys that reach a table are in lower case, and the inherited
  properties with a name in lower case are \<open>constructor\<close> (the function \<open>Object\<close>) and
  \<open>__proto__\<close> (the prototype itself): values that are truthy and are neither strings nor
  unit records. An inherited value is kept as the string it converts to.
\<close>

datatype 'a property = Own 'a | Inherited string | Absent

definition inheritedProperties :: "(string \<times> string) list" where
  "inheritedProperties =
     [(''constructor'', ''function Object() { [native code] }''),
      (''__proto__'', ''[object Object]'')]"

definition getProperty :: "(string \<rightharpoonup> 'a) \<Rightarrow> string \<Rightarrow> 'a property" where
  "getProperty table key =
     (case table key of
        Some v \<Rightarrow> Own v
      | None \<Rightarrow> (case map_of inheritedProperties key of Some s \<Rightarrow> Inherited s | None \<Rightarrow> Absent))"

text \<open>The exceptions of the pipeline are all of one kind.\<close>

datatype error = TypeError

section \<open>Numbers\<close>

text \<open>
  Quantities are JavaScript numbers, that is IEEE 754 doubles: 53 significant bits, the
  exponents -1022 to 1023, and every operation rounded to the nearest double, a tie going to
  the even one. A finite double is modelled by the rational number it stands for, and
  \<open>Infinity\<close>, \<open>-Infinity\<close> and \<open>NaN\<close> are values of their own. Negative zero is identified with
  zero: the pipeline divides only by the constants 16 and 3 and by numbers read from digits,
  and never prints a sign.
\<close>

datatype jsnum = Fin rat | Infinity | NegInfinity | NaN

text \<open>The exponent of a positive rational: the \<open>e\<close> with \<open>2^e \<le> x < 2^(e+1)\<close>.\<close>

definition floorLog2 :: "rat \<Rightarrow> int" where
  "floorLog2 x =
     (let (p, q) = quotient_of x; d = bitlen p - bitlen q in if 2 powi d \<le> x then d else d - 1)"

definition roundHalfEven :: "rat \<Rightarrow> int" where
  "roundHalfEven x =
     (let n = \<lfloor>x\<rfloor>; f = x - of_int n in
      if f < 1 / 2 then n else if 1 / 2 < f then n + 1 else if even n then n else n + 1)"

text \<open>
  Rounding a positive rational: the doubles around it are the multiples of the unit in the
  last place, which is \<open>2^(e-52)\<close> and for the subnormal numbers \<open>2^(-1074)\<close>. \<open>None\<close> is
  overflow: the rounded value would be \<open>2^1024\<close> or more.
\<close>

definition roundPositive :: "rat \<Rightarrow> rat option" where
  "roundPositive a =
     (let e = floorLog2 a in
      if 1024 \<le> e then None
      else
        (let ulp = 2 powi (max e (- 1022) - 52); m = roundHalfEven (a / ulp) in
         if e = 1023 \<and> m = 2 ^ 53 then None else Some (of_int m * ulp)))"

definition round64 :: "rat \<Rightarrow> jsnum" where
  "round64 x =
     (if x = 0 then Fin 0
      else if 0 < x then (case roundPositive x of Some r \<Rightarrow> Fin r | None \<Rightarrow> Infinity)
      else (case roundPositive (- x) of Some r \<Rightarrow> Fin (- r) | None \<Rightarrow> NegInfinity))"

text \<open>The rationals that are doubles.\<close>

definition isDouble :: "rat \<Rightarrow> bool" where
  "isDouble r = (round64 r = Fin r)"

text \<open>\<open>x + y\<close>\<close>

fun jsAdd :: "jsnum \<Rightarrow> jsnum \<Rightarrow> jsnum" where
  "jsAdd (Fin x) (Fin y) = round64 (x + y)"
| "jsAdd NaN y = NaN"
| "jsAdd x NaN = NaN"
| "jsAdd Infinity NegInfinity = NaN"
| "jsAdd NegInfinity Infinity = NaN"
| "jsAdd Infinity y = Infinity"
| "jsAdd x Infinity = Infinity"
| "jsAdd NegInfinity y = NegInfinity"
| "jsAdd x NegInfinity = NegInfinity"

text \<open>\<open>q * 16\<close>\<close>

definition times16 :: "jsnum \<Rightarrow> jsnum" where
  "times16 q = (case q of Fin r \<Rightarrow> round64 (r * 16) | v \<Rightarrow> v)"

text \<open>
  \<open>num / den\<close> for two numbers read from digits, which are not negative: \<open>0/0\<close> and
  \<open>Infinity/Infinity\<close> are \<open>NaN\<close>, and any other division by zero is \<open>Infinity\<close>.
\<close>

definition jsDivide :: "jsnum \<Rightarrow> jsnum \<Rightarrow> jsnum" where
  "jsDivide num den =
     (case (num, den) of
        (Fin n, Fin d) \<Rightarrow>
          (if d = 0 then (if n = 0 then NaN else if 0 < n then Infinity else NegInfinity)
           else round64 (n / d))
      | (Fin n, Infinity) \<Rightarrow> Fin 0
      | (Fin n, NegInfinity) \<Rightarrow> Fin 0
      | (Infinity, Fin d) \<Rightarrow> (if 0 \<le> d then Infinity else NegInfinity)
      | (NegInfinity, Fin d) \<Rightarrow> (if 0 \<le> d then NegInfinity else Infinity)
      | _ \<Rightarrow> NaN)"

text \<open>
  A quantity that comes out of \<open>JSON.parse\<close> may be missing or \<open>null\<close>; the code tells the two
  apart (\<open>quantity !== undefined\<close> in the parser, \<open>!== undefined && !== null\<close> in the
  aggregator), and so does the model.
\<close>

datatype 'a jsval = Undefined | Null | Value (valueOf: 'a)

text \<open>\<open>!quantity\<close>: a quantity is falsy when it is \<open>undefined\<close>, \<open>null\<close>, zero or \<open>NaN\<close>.\<close>

definition falsyNum :: "jsnum jsval \<Rightarrow> bool" where
  "falsyNum q = (q = Undefined \<or> q = Null \<or> q = Value (Fin 0) \<or> q = Value NaN)"

text \<open>\<open>!s\<close> for an optional string: \<open>undefined\<close> and the empty string are falsy.\<close>

definition falsyStr :: "string option \<Rightarrow> bool" where
  "falsyStr s = (s = None \<or> s = Some [])"

section \<open>The Name Normalizer\<close>

text \<open>
  \<open>prepPattern\<close> of \<open>extractBaseNameAndPrep\<close> is
  \<^verbatim>\<open>,\s*((?:(?:finely|roughly|coarsely)\s+)?(?:minced|...|shredded)(?:\s+and\s+(?:seeded|...|diced))?|for garnish|for serving)\<close>
  under the \<open>i\<close> flag. \<open>matchPrepAt\<close> matches what follows the comma and returns the text of the
  group and the text behind the match: the adverb and the \<open>and\<close> clause are optional and
  greedy, the alternatives are tried in the order written.
\<close>

definition prepAdverbs :: "string list" where
  "prepAdverbs = [''finely'', ''roughly'', ''coarsely'']"

definition prepVerbs :: "string list" where
  "prepVerbs = [''minced'', ''chopped'', ''diced'', ''sliced'', ''grated'', ''crushed'',
     ''spiralized'', ''into noodles'', ''halved'', ''seeded'', ''trimmed'', ''rinsed'', ''peeled'',
     ''deveined'', ''crumbled'', ''riced'', ''julienned'', ''shredded'']"

definition prepSecondVerbs :: "string list" where
  "prepSecondVerbs = [''seeded'', ''trimmed'', ''rinsed'', ''peeled'', ''deveined'', ''crumbled'',
     ''sliced'', ''diced'']"

text \<open>\<open>(?:finely|roughly|coarsely)\s+\<close>: the first adverb that is followed by white space.\<close>

fun matchAdverb :: "string list \<Rightarrow> string \<Rightarrow> string option" where
  "matchAdverb [] s = None"
| "matchAdverb (a # as) s =
     (case matchLit a s of
        None \<Rightarrow> matchAdverb as s
      | Some r \<Rightarrow> (case skipSpaces1 r of Some r' \<Rightarrow> Some r' | None \<Rightarrow> matchAdverb as s))"

text \<open>\<open>\s+and\s+(?:seeded|...|diced)\<close>\<close>

definition matchAndClause :: "string \<Rightarrow> string option" where
  "matchAndClause s =
     (case skipSpaces1 s of
        None \<Rightarrow> None
      | Some r1 \<Rightarrow>
          (case matchLit ''and'' r1 of
             None \<Rightarrow> None
           | Some r2 \<Rightarrow>
               (case skipSpaces1 r2 of
                  None \<Rightarrow> None
                | Some r3 \<Rightarrow> firstLit prepSecondVerbs r3)))"

text \<open>The verb with its optional \<open>and\<close> clause.\<close>

definition matchVerbs :: "string \<Rightarrow> string option" where
  "matchVerbs s =
     (case firstLit prepVerbs s of
        None \<Rightarrow> None
      | Some r \<Rightarrow> (case matchAndClause r of Some r' \<Rightarrow> Some r' | None \<Rightarrow> Some r))"

definition matchPrepGroup :: "string \<Rightarrow> string option" where
  "matchPrepGroup s =
     (case (case matchAdverb prepAdverbs s of Some r \<Rightarrow> matchVerbs r | None \<Rightarrow> None) of
        Some r \<Rightarrow> Some r
      | None \<Rightarrow>
          (case matchVerbs s of
             Some r \<Rightarrow> Some r
           | None \<Rightarrow> firstLit [''for garnish'', ''for serving''] s))"

definition matchPrepAt :: "string \<Rightarrow> (string \<times> string) option" where
  "matchPrepAt s =
     (let t = dropWhile isSpace s in
      case matchPrepGroup t of
        None \<Rightarrow> None
      | Some r \<Rightarrow> Some (take (length t - length r) t, r))"

text \<open>
  The leftmost match of \<open>prepPattern\<close> in a string: the text before the comma, the group and
  the text behind the match.
\<close>

fun findPrep :: "string \<Rightarrow> (string \<times> string \<times> string) option" where
  "findPrep [] = None"
| "findPrep (c # cs) =
     (case (if c = CHR '','' then matchPrepAt cs else None) of
        Some (g, r) \<Rightarrow> Some ([], g, r)
      | None \<Rightarrow> map_option (\<lambda>(b, g, r). (c # b, g, r)) (findPrep cs))"

text \<open>\<open>replace(/^optional:\s*/i, "")\<close>\<close>

definition stripOptional :: "string \<Rightarrow> string" where
  "stripOptional s = (case matchLit ''optional:'' s of Some r \<Rightarrow> dropWhile isSpace r | None \<Rightarrow> s)"

text \<open>
  \<open>replace(/^(fresh|...|lean|boneless,\s*skinless)\s+/i, "")\<close> and
  \<open>replace(/^(juice of|wedges of|wedges from)\s+/i, "")\<close>: the first alternative that is
  followed by white space is removed with that white space.
\<close>

definition matchBonelessSkinless :: "string \<Rightarrow> string option" where
  "matchBonelessSkinless s =
     (case matchLit ''boneless,'' s of
        None \<Rightarrow> None
      | Some r \<Rightarrow> matchLit ''skinless'' (dropWhile isSpace r))"

fun stripLeading :: "(string \<Rightarrow> string option) list \<Rightarrow> string \<Rightarrow> string option" where
  "stripLeading [] s = None"
| "stripLeading (m # ms) s =
     (case m s of
        None \<Rightarrow> stripLeading ms s
      | Some r \<Rightarrow> (case skipSpaces1 r of Some r' \<Rightarrow> Some r' | None \<Rightarrow> stripLeading ms s))"

definition sizeDescriptors :: "(string \<Rightarrow> string option) list" where
  "sizeDescriptors = map matchLit [''fresh'', ''large'', ''small'', ''medium'', ''organic'', ''dried'',
     ''boneless'', ''skinless'', ''lean''] @ [matchBonelessSkinless]"

definition stripSizeDescriptor :: "string \<Rightarrow> string" where
  "stripSizeDescriptor s = (case stripLeading sizeDescriptors s of Some r \<Rightarrow> r | None \<Rightarrow> s)"

definition stripPrefixPhrase :: "string \<Rightarrow> string" where
  "stripPrefixPhrase s =
     (case stripLeading (map matchLit [''juice of'', ''wedges of'', ''wedges from'']) s of
        Some r \<Rightarrow> r | None \<Rightarrow> s)"

text \<open>
  \<open>replace(/\s+(for garnish|for serving)$/i, "")\<close>: the phrase at the end of the string goes
  with all the white space before it, of which there must be some.
\<close>

definition stripTrailingPhrase :: "string \<Rightarrow> string" where
  "stripTrailingPhrase s =
     (let l = toLowerCase s in
      if endsWith l ''for garnish'' \<or> endsWith l ''for serving'' then
        (let b = take (length s - 11) s in
         if b \<noteq> [] \<and> isSpace (last b) then rev (dropWhile isSpace (rev b)) else s)
      else s)"

definition extractBaseNameAndPrep :: "string \<Rightarrow> string \<times> string option" where
  "extractBaseNameAndPrep name =
     (let baseName0 = stripOptional (trim name);
          (baseName1, prepNote) =
             (case findPrep baseName0 of
                Some (b, g, r) \<Rightarrow> (trim (b @ r), Some (trim g))
              | None \<Rightarrow> (baseName0, None));
          baseName2 = stripSizeDescriptor baseName1;
          baseName3 = stripTrailingPhrase baseName2;
          baseName4 = stripPrefixPhrase baseName3
      in (trim baseName4, prepNote))"

text \<open>
  The regular expressions of \<open>normalizeCanonicalName\<close>, tested on a string that is already in
  lower case: \<open>/^salt\s*(and|&)\s*pepper/\<close>, \<open>/^salt\s+to\s+taste/\<close> and
  \<open>/^pepper\s+to\s+taste$/\<close>.
\<close>

definition matchSaltAndPepper :: "string \<Rightarrow> bool" where
  "matchSaltAndPepper s =
     (case matchLit ''salt'' s of
        None \<Rightarrow> False
      | Some r \<Rightarrow>
          (case firstLit [''and'', ''&''] (dropWhile isSpace r) of
             None \<Rightarrow> False
           | Some r' \<Rightarrow> matchLit ''pepper'' (dropWhile isSpace r') \<noteq> None))"

definition matchToTaste :: "string \<Rightarrow> string \<Rightarrow> string option" where
  "matchToTaste w s =
     (case matchLit w s of
        None \<Rightarrow> None
      | Some r1 \<Rightarrow>
          (case skipSpaces1 r1 of
             None \<Rightarrow> None
           | Some r2 \<Rightarrow>
               (case matchLit ''to'' r2 of
                  None \<Rightarrow> None
                | Some r3 \<Rightarrow>
                    (case skipSpaces1 r3 of
                       None \<Rightarrow> None
                     | Some r4 \<Rightarrow> matchLit ''taste'' r4))))"

text \<open>
  \<open>normalizeCanonicalName\<close>. After the plural rule the name is trimmed again, which raises
  when the rule has put an inherited value in its place. The synonym lookup that follows
  can put one there too; the tests of the special case convert it to a string, and it is
  returned as it is.
\<close>

definition normalizeCanonicalName :: "string \<Rightarrow> error + string" where
  "normalizeCanonicalName baseName =
     (let normalized0 = trim (toLowerCase baseName);
          normalized1 =
            (if endsWith normalized0 ''s'' \<and> \<not> endsWith normalized0 ''ss'' \<and> \<not> endsWith normalized0 ''us''
             then (case getProperty NAME_NORMALIZATION_MAP (butlast normalized0) of
                     Own v \<Rightarrow> Inr v
                   | Inherited s \<Rightarrow> Inl TypeError
                   | Absent \<Rightarrow>
                       (case getProperty NAME_NORMALIZATION_MAP normalized0 of
                          Own v \<Rightarrow> Inr v
                        | Inherited s \<Rightarrow> Inl TypeError
                        | Absent \<Rightarrow> Inr normalized0))
             else Inr normalized0)
      in case normalized1 of
           Inl e \<Rightarrow> Inl e
         | Inr n1 \<Rightarrow>
             (let normalized2 = trim n1;
                  normalized3 =
                    (case getProperty NAME_NORMALIZATION_MAP normalized2 of
                       Own v \<Rightarrow> v
                     | Inherited s \<Rightarrow> s
                     | Absent \<Rightarrow> normalized2);
                  normalized4 =
                    (if matchSaltAndPepper normalized3 \<or> matchToTaste ''salt'' normalized3 \<noteq> None
                     then ''salt and pepper'' else normalized3)
              in Inr (if matchToTaste ''pepper'' normalized4 = Some [] then ''salt and pepper''
                      else normalized4)))"

text \<open>The names the special case is written for: one of its three tests succeeds.\<close>

definition saltPepperVariant :: "string \<Rightarrow> bool" where
  "saltPepperVariant l =
     (matchSaltAndPepper l \<or> matchToTaste ''salt'' l \<noteq> None \<or> matchToTaste ''pepper'' l = Some [])"

section \<open>The Unit Table and unit normalisation\<close>

text \<open>
  \<open>normalizeUnit\<close>. Past the two guards the unit is a string that is not empty and the
  quantity a number that is not zero. An inherited value has no \<open>baseUnit\<close>, so the base unit
  of the result is \<open>undefined\<close> then.
\<close>

definition normalizeUnit :: "string option \<Rightarrow> jsnum jsval \<Rightarrow> BaseUnit option \<times> jsnum jsval" where
  "normalizeUnit unit quantity =
     (if falsyStr unit \<and> quantity \<noteq> Undefined then (Some Unit, quantity)
      else if falsyStr unit \<or> falsyNum quantity then (Some NoUnit, Undefined)
      else
        (let normalizedUnit = trim (toLowerCase (the unit)); q = valueOf quantity in
         case getProperty UNIT_MAP normalizedUnit of
           Own unitInfo \<Rightarrow>
             (if info_baseUnit unitInfo = Cup then (Some Tbsp, Value (times16 q))
              else if info_baseUnit unitInfo = Tbsp then (Some Tbsp, Value q)
              else if info_baseUnit unitInfo = Tsp then (Some Tsp, Value q)
              else (Some (info_baseUnit unitInfo), Value q))
         | Inherited s \<Rightarrow> (None, Value q)
         | Absent \<Rightarrow> (Some Unit, Value q)))"

section \<open>The Line Parser\<close>

text \<open>
  \<open>ParsedIngredient\<close> of \<open>types.ts\<close>. A field that may be \<open>undefined\<close> is an option; \<open>raw\<close>
  and \<open>originalText\<close> are options too, because an element of the text-interpretation
  response may come without them. The field \<open>notes\<close> is never read or written by the
  pipeline and is left out.
\<close>

record ParsedIngredient =
  raw :: "string option"
  name :: string
  baseName :: string
  prepNote :: "string option"
  canonicalName :: string
  quantity :: "jsnum jsval"
  unit :: "string option"
  baseUnit :: "BaseUnit option"
  quantityInBaseUnits :: "jsnum jsval"
  originalText :: "string option"

text \<open>\<open>a || b\<close> on optional strings.\<close>

definition orElse :: "string option \<Rightarrow> string option \<Rightarrow> string option" where
  "orElse a b = (if falsyStr a then b else a)"

definition enrichParsedIngredient :: "ParsedIngredient \<Rightarrow> error + ParsedIngredient" where
  "enrichParsedIngredient parsed =
     (let (bn, pn) = extractBaseNameAndPrep (name parsed) in
      case normalizeCanonicalName bn of
        Inl e \<Rightarrow> Inl e
      | Inr canonical \<Rightarrow>
          (let (bu, qb) = normalizeUnit (unit parsed) (quantity parsed)
           in Inr (parsed\<lparr>
                raw := orElse (originalText parsed) (orElse (raw parsed) (Some [])),
                baseName := bn,
                prepNote := pn,
                canonicalName := canonical,
                baseUnit := bu,
                quantityInBaseUnits := qb\<rparr>)))"

text \<open>
  The quantity token \<open>\d+(?:\/\d+)?(?:\.\d+)?\<close> at the start of a string: the digits, the
  digits behind the slash, the digits behind the point, and the rest of the string. Every
  part is greedy, and no shorter choice can let the rest of a pattern match, since what
  follows the token in both patterns is white space.
\<close>

definition matchQuantity :: "string \<Rightarrow> (string \<times> string option \<times> string option \<times> string) option" where
  "matchQuantity s =
     (let d1 = takeWhile isDigit s; r1 = dropWhile isDigit s in
      if d1 = [] then None
      else
        (let (sl, r2) =
               (case r1 of
                  c # t \<Rightarrow>
                    (if c = CHR ''/'' \<and> takeWhile isDigit t \<noteq> []
                     then (Some (takeWhile isDigit t), dropWhile isDigit t) else (None, r1))
                | [] \<Rightarrow> (None, r1));
             (fr, r3) =
               (case r2 of
                  c # t \<Rightarrow>
                    (if c = CHR ''.'' \<and> takeWhile isDigit t \<noteq> []
                     then (Some (takeWhile isDigit t), dropWhile isDigit t) else (None, r2))
                | [] \<Rightarrow> (None, r2))
         in Some (d1, sl, fr, r3)))"

definition digitValue :: "char \<Rightarrow> nat" where
  "digitValue c = (case map_of (zip ''0123456789'' [0, 1, 2, 3, 4, 5, 6, 7, 8, 9]) c of Some d \<Rightarrow> d | None \<Rightarrow> 0)"

definition digitsValue :: "string \<Rightarrow> nat" where
  "digitsValue ds = foldl (\<lambda>n c. 10 * n + digitValue c) 0 ds"

text \<open>
  \<open>Number\<close> and \<open>parseFloat\<close> of digits with an optional decimal part: the double nearest to
  the decimal number, or \<open>Infinity\<close> when the number lies beyond the largest double.
\<close>

definition decimalValue :: "string \<Rightarrow> string option \<Rightarrow> rat" where
  "decimalValue ds fr =
     (case fr of
        None \<Rightarrow> of_nat (digitsValue ds)
      | Some fs \<Rightarrow> of_nat (digitsValue ds) + of_nat (digitsValue fs) / 10 ^ length fs)"

definition parseFloat :: "string \<Rightarrow> string option \<Rightarrow> jsnum" where
  "parseFloat ds fr = round64 (decimalValue ds fr)"

text \<open>
  The quantity of a matched token. With a slash the token is split there and the two parts
  are divided, and \<open>isNaN\<close> turns a quotient that is \<open>NaN\<close> into \<open>undefined\<close>; without one the
  token goes through \<open>parseFloat\<close>.
\<close>

definition quantityOf :: "string \<Rightarrow> string option \<Rightarrow> string option \<Rightarrow> jsnum jsval" where
  "quantityOf d1 sl fr =
     (case sl of
        Some d2 \<Rightarrow>
          (let q = jsDivide (parseFloat d1 None) (parseFloat d2 fr) in
           if q = NaN then Undefined else Value q)
      | None \<Rightarrow> Value (parseFloat d1 fr))"

text \<open>
  \<open>simplePattern\<close> is \<open>^(quantity)\s+([a-z]+|lb|...|heads)\s+(.+)$\<close> under the \<open>i\<close> flag; every
  word of the alternation is a word of letters, which its first alternative \<open>[a-z]+\<close>
  matches. \<open>noUnitPattern\<close> is \<open>^(quantity)\s+(.+)$\<close>.
\<close>

definition matchRest :: "string \<Rightarrow> bool" where
  "matchRest s = (s \<noteq> [] \<and> \<not> list_ex isLineTerminator s)"

definition matchSimplePattern :: "string \<Rightarrow> (jsnum jsval \<times> string \<times> string) option" where
  "matchSimplePattern s =
     (case matchQuantity s of
        None \<Rightarrow> None
      | Some (d1, sl, fr, r) \<Rightarrow>
          (case skipSpaces1 r of
             None \<Rightarrow> None
           | Some r1 \<Rightarrow>
               (let w = takeWhile isLetter r1 in
                if w = [] then None
                else
                  (case skipSpaces1 (dropWhile isLetter r1) of
                     None \<Rightarrow> None
                   | Some r2 \<Rightarrow> if matchRest r2 then Some (quantityOf d1 sl fr, w, r2) else None))))"

definition matchNoUnitPattern :: "string \<Rightarrow> (jsnum jsval \<times> string) option" where
  "matchNoUnitPattern s =
     (case matchQuantity s of
        None \<Rightarrow> None
      | Some (d1, sl, fr, r) \<Rightarrow>
          (case skipSpaces1 r of
             None \<Rightarrow> None
           | Some r1 \<Rightarrow> if matchRest r1 then Some (quantityOf d1 sl fr, r1) else None))"

text \<open>\<open>/to taste|as needed|optional|for garnish/i.test\<close>\<close>

definition noQuantityPhrase :: "string \<Rightarrow> bool" where
  "noQuantityPhrase s =
     (let l = toLowerCase s in
      includesStr l ''to taste'' \<or> includesStr l ''as needed'' \<or> includesStr l ''optional''
      \<or> includesStr l ''for garnish'')"

text \<open>The record every tier starts from, before enrichment.\<close>

definition newParsed :: "string \<Rightarrow> jsnum jsval \<Rightarrow> string option \<Rightarrow> string \<Rightarrow> ParsedIngredient" where
  "newParsed nm q u txt =
     \<lparr>raw = Some txt, name = nm, baseName = [], prepNote = None, canonicalName = [],
      quantity = q, unit = u, baseUnit = Some NoUnit, quantityInBaseUnits = Undefined,
      originalText = Some txt\<rparr>"

text \<open>\<open>parseIngredientRegex\<close>: a record, or \<open>null\<close> when no pattern matches the line.\<close>

definition parseIngredientRegex :: "string \<Rightarrow> error + ParsedIngredient option" where
  "parseIngredientRegex line =
     (let trimmed = trim line in
      if noQuantityPhrase trimmed
      then map_sum id Some (enrichParsedIngredient (newParsed (toLowerCase trimmed) Undefined None trimmed))
      else
        (case matchSimplePattern trimmed of
           Some (q, u, n) \<Rightarrow>
             map_sum id Some (enrichParsedIngredient (newParsed (trim n) q (Some (toLowerCase u)) trimmed))
         | None \<Rightarrow>
             (case matchNoUnitPattern trimmed of
                Some (q, n) \<Rightarrow>
                  map_sum id Some (enrichParsedIngredient (newParsed (trim n) q None trimmed))
              | None \<Rightarrow> Inr None)))"

text \<open>
  The text-interpretation service. What \<open>JSON.parse\<close> hands back is cast to
  \<open>ParsedIngredient\<close> without a check, so a response is modelled by what the code can observe
  of it: the call or \<open>JSON.parse\<close> raised (\<open>None\<close>), or there is a list of elements (a value
  that is not an array is wrapped into a list of one). An element is \<open>None\<close> when it is not an
  object (\<open>null\<close>, a number, a string), and else a record of the fields the parser reads,
  each of them possibly missing; the quantity may also be \<open>null\<close> (a \<open>null\<close> unit or text is
  falsy like a missing one, and a \<open>null\<close> name raises like a missing one). A field that is
  present is otherwise taken to have the type the interface gives it.
\<close>

record AiItem =
  ai_name :: "string option"
  ai_quantity :: "jsnum jsval"
  ai_unit :: "string option"
  ai_originalText :: "string option"
  ai_raw :: "string option"

type_synonym AiResponse = "AiItem option list option"

text \<open>\<open>xs[i]\<close>, which is \<open>undefined\<close> out of range.\<close>

definition nthOpt :: "'a list \<Rightarrow> nat \<Rightarrow> 'a option" where
  "nthOpt xs i = (if i < length xs then Some (xs ! i) else None)"

text \<open>
  One element of the response: \<open>originalText\<close> and \<open>raw\<close> default to the line \<open>dflt\<close> (which is
  \<open>complexLines[index]\<close>, \<open>undefined\<close> past the end), then the element is enriched. Reading a
  property of \<open>null\<close>, setting one on a primitive value and \<open>trim\<close> of a missing \<open>name\<close> raise
  a \<open>TypeError\<close>.
\<close>

definition enrichAiItem :: "string option \<Rightarrow> AiItem option \<Rightarrow> error + ParsedIngredient" where
  "enrichAiItem dflt item =
     (case item of
        None \<Rightarrow> Inl TypeError
      | Some it \<Rightarrow>
          (case ai_name it of
             None \<Rightarrow> Inl TypeError
           | Some n \<Rightarrow>
               enrichParsedIngredient
                 \<lparr>raw = orElse (ai_raw it) dflt, name = n, baseName = [], prepNote = None,
                  canonicalName = [], quantity = ai_quantity it, unit = ai_unit it,
                  baseUnit = None, quantityInBaseUnits = Undefined,
                  originalText = orElse (ai_originalText it) dflt\<rparr>))"

text \<open>A list of results, or the first error.\<close>

fun collect :: "(error + 'a) list \<Rightarrow> error + 'a list" where
  "collect [] = Inr []"
| "collect (x # xs) =
     (case x of
        Inl e \<Rightarrow> Inl e
      | Inr v \<Rightarrow> (case collect xs of Inl e \<Rightarrow> Inl e | Inr vs \<Rightarrow> Inr (v # vs)))"

text \<open>The record of the fallback path: the trimmed line as the name, nothing else.\<close>

definition fallbackParsed :: "string \<Rightarrow> ParsedIngredient" where
  "fallbackParsed line =
     \<lparr>raw = Some line, name = trim line, baseName = [], prepNote = None, canonicalName = [],
      quantity = Undefined, unit = None, baseUnit = Some NoUnit, quantityInBaseUnits = Undefined,
      originalText = Some line\<rparr>"

text \<open>
  \<open>parseIngredient\<close>: the response is that of the call for this one line, \<open>None\<close> when the call
  or \<open>JSON.parse\<close> raised. The pattern tiers run before the \<open>try\<close> block and the fallback runs
  in the \<open>catch\<close> block, so what they raise leaves the function.
\<close>

definition parseIngredient :: "string \<Rightarrow> bool \<Rightarrow> AiItem option option \<Rightarrow> error + ParsedIngredient" where
  "parseIngredient line useAI response =
     (case parseIngredientRegex line of
        Inl e \<Rightarrow> Inl e
      | Inr (Some regexResult) \<Rightarrow> Inr regexResult
      | Inr None \<Rightarrow>
          (if useAI then
             (case (case response of None \<Rightarrow> Inl TypeError | Some item \<Rightarrow> enrichAiItem (Some line) item) of
                Inr parsed \<Rightarrow> Inr parsed
              | Inl e \<Rightarrow> enrichParsedIngredient (fallbackParsed line))
           else enrichParsedIngredient (fallbackParsed line)))"

text \<open>
  The body of the \<open>try\<close> block of \<open>parseIngredients\<close> up to the loop: every element of the
  response is given its defaults and enriched, and an exception on any of them leaves the
  block.
\<close>

definition enrichAiResults :: "string list \<Rightarrow> AiItem option list \<Rightarrow> error + ParsedIngredient list" where
  "enrichAiResults complexLines aiResults =
     collect (map (\<lambda>(index, result). enrichAiItem (nthOpt complexLines index) result)
                  (enumerate 0 aiResults))"

text \<open>
  The two loops that put the results back into the order of the lines, with their counters
  \<open>simpleIndex\<close> and \<open>complexIndex\<close>. An element of the result is an option because an array
  read out of range pushes \<open>undefined\<close>; in the loop of the \<open>catch\<close> block the element read is
  used at once, where \<open>undefined\<close> would raise.
\<close>

fun combineTry :: "string list \<Rightarrow> string list \<Rightarrow> ParsedIngredient list \<Rightarrow> ParsedIngredient list
    \<Rightarrow> nat \<Rightarrow> nat \<Rightarrow> error + ParsedIngredient option list" where
  "combineTry [] simpleLines simpleResults enrichedAiResults simpleIndex complexIndex = Inr []"
| "combineTry (line # lines) simpleLines simpleResults enrichedAiResults simpleIndex complexIndex =
     (if line \<in> set simpleLines
      then (case combineTry lines simpleLines simpleResults enrichedAiResults (simpleIndex + 1) complexIndex of
              Inl e \<Rightarrow> Inl e
            | Inr rs \<Rightarrow> Inr (nthOpt simpleResults simpleIndex # rs))
      else (case (case nthOpt enrichedAiResults complexIndex of
                    Some r \<Rightarrow> Inr r
                  | None \<Rightarrow> enrichParsedIngredient (fallbackParsed line)) of
              Inl e \<Rightarrow> Inl e
            | Inr r \<Rightarrow>
                (case combineTry lines simpleLines simpleResults enrichedAiResults simpleIndex (complexIndex + 1) of
                   Inl e \<Rightarrow> Inl e
                 | Inr rs \<Rightarrow> Inr (Some r # rs))))"

fun combineCatch :: "string list \<Rightarrow> string list \<Rightarrow> ParsedIngredient list \<Rightarrow> ParsedIngredient list
    \<Rightarrow> nat \<Rightarrow> nat \<Rightarrow> error + ParsedIngredient option list" where
  "combineCatch [] simpleLines simpleResults fallbackResults simpleIndex complexIndex = Inr []"
| "combineCatch (line # lines) simpleLines simpleResults fallbackResults simpleIndex complexIndex =
     (if line \<in> set simpleLines
      then (case combineCatch lines simpleLines simpleResults fallbackResults (simpleIndex + 1) complexIndex of
              Inl e \<Rightarrow> Inl e
            | Inr rs \<Rightarrow> Inr (nthOpt simpleResults simpleIndex # rs))
      else (case nthOpt fallbackResults complexIndex of
              None \<Rightarrow> Inl TypeError
            | Some fallback \<Rightarrow>
                (let fallback' =
                       (if baseName fallback = []
                        then fallback\<lparr>baseName := fst (extractBaseNameAndPrep (name fallback))\<rparr>
                        else fallback)
                 in case enrichParsedIngredient fallback' of
                      Inl e \<Rightarrow> Inl e
                    | Inr r \<Rightarrow>
                        (case combineCatch lines simpleLines simpleResults fallbackResults simpleIndex
                                (complexIndex + 1) of
                           Inl e \<Rightarrow> Inl e
                         | Inr rs \<Rightarrow> Inr (Some r # rs)))))"

text \<open>
  The first loop of \<open>parseIngredients\<close> runs \<open>parseIngredientRegex\<close> on every line, outside the
  \<open>try\<close> block. When none of the lines raises it leaves three lists: the lines a pattern
  resolves, their records, and the other lines.
\<close>

definition regexResult :: "string \<Rightarrow> ParsedIngredient option" where
  "regexResult line = (case parseIngredientRegex line of Inr r \<Rightarrow> r | Inl e \<Rightarrow> None)"

definition simpleLinesOf :: "string list \<Rightarrow> string list" where
  "simpleLinesOf lines = filter (\<lambda>line. regexResult line \<noteq> None) lines"

definition simpleResultsOf :: "string list \<Rightarrow> ParsedIngredient list" where
  "simpleResultsOf lines = List.map_filter regexResult lines"

definition complexLinesOf :: "string list \<Rightarrow> string list" where
  "complexLinesOf lines = filter (\<lambda>line. regexResult line = None) lines"

definition parseIngredients :: "string list \<Rightarrow> bool \<Rightarrow> AiResponse \<Rightarrow> error + ParsedIngredient option list" where
  "parseIngredients lines useAI response =
     (case collect (map parseIngredientRegex lines) of
        Inl e \<Rightarrow> Inl e
      | Inr regexResults \<Rightarrow>
          (let simpleLines = simpleLinesOf lines;
               complexLines = complexLinesOf lines;
               simpleResults = simpleResultsOf lines
           in if complexLines \<noteq> [] \<and> useAI then
                (case (case response of
                         None \<Rightarrow> Inl TypeError
                       | Some aiResults \<Rightarrow>
                           (case enrichAiResults complexLines aiResults of
                              Inl e \<Rightarrow> Inl e
                            | Inr enrichedAiResults \<Rightarrow>
                                combineTry lines simpleLines simpleResults enrichedAiResults 0 0)) of
                   Inr allResults \<Rightarrow> Inr allResults
                 | Inl e \<Rightarrow>
                     (case collect (map (\<lambda>line. parseIngredient line False None) complexLines) of
                        Inl e' \<Rightarrow> Inl e'
                      | Inr fallbackResults \<Rightarrow>
                          combineCatch lines simpleLines simpleResults fallbackResults 0 0))
              else Inr (map Some simpleResults)))"

section \<open>The Aggregator\<close>

text \<open>The arithmetic of \<open>formatQuantity\<close> on quantities: \<open>q >= n\<close> for a constant \<open>n\<close>.\<close>

definition jsGe :: "jsnum \<Rightarrow> rat \<Rightarrow> bool" where
  "jsGe q n = (case q of Fin r \<Rightarrow> n \<le> r | Infinity \<Rightarrow> True | _ \<Rightarrow> False)"

text \<open>
  \<open>Math.floor(q / n)\<close> for a positive constant \<open>n\<close>: the quotient is rounded, and the floor
  of a double is a double.
\<close>

definition floorDiv :: "jsnum \<Rightarrow> rat \<Rightarrow> jsnum" where
  "floorDiv q n =
     (case q of
        Fin r \<Rightarrow> (case round64 (r / n) of Fin t \<Rightarrow> Fin (of_int \<lfloor>t\<rfloor>) | v \<Rightarrow> v)
      | v \<Rightarrow> v)"

text \<open>
  \<open>q % n === 0\<close>: the remainder of JavaScript truncates the quotient towards zero and is
  exact, and the remainder of an infinity or of \<open>NaN\<close> is \<open>NaN\<close>, which equals nothing.
\<close>

definition remIsZero :: "jsnum \<Rightarrow> rat \<Rightarrow> bool" where
  "remIsZero q n =
     (case q of
        Fin r \<Rightarrow> r - n * of_int (if r / n < 0 then \<lceil>r / n\<rceil> else \<lfloor>r / n\<rfloor>) = 0
      | _ \<Rightarrow> False)"

record Display =
  displayQuantity :: "jsnum option"
  displayUnit :: "string option"

definition formatQuantity :: "jsnum option \<Rightarrow> string \<Rightarrow> string \<Rightarrow> Display" where
  "formatQuantity totalQuantity bu nm =
     (case totalQuantity of
        None \<Rightarrow> \<lparr>displayQuantity = None, displayUnit = None\<rparr>
      | Some q \<Rightarrow>
          if bu = ''none'' then \<lparr>displayQuantity = None, displayUnit = None\<rparr>
          else if bu = ''tbsp'' \<and> jsGe q 16 then
            (let cups = floorDiv q 16 in
             if remIsZero q 16
             then \<lparr>displayQuantity = Some cups,
                   displayUnit = Some (if cups = Fin 1 then ''cup'' else ''cups'')\<rparr>
             else \<lparr>displayQuantity = Some cups,
                   displayUnit = Some (if cups = Fin 1 then ''cup'' else ''cups'')\<rparr>)
          else if bu = ''tsp'' \<and> jsGe q 3 then
            (let tbsp = floorDiv q 3 in
             if remIsZero q 3
             then \<lparr>displayQuantity = Some tbsp, displayUnit = Some ''tbsp''\<rparr>
             else \<lparr>displayQuantity = Some q, displayUnit = Some ''tsp''\<rparr>)
          else if bu = ''tsp'' then \<lparr>displayQuantity = Some q, displayUnit = Some ''tsp''\<rparr>
          else if bu = ''tbsp'' then \<lparr>displayQuantity = Some q, displayUnit = Some ''tbsp''\<rparr>
          else if bu = ''cup'' then
            \<lparr>displayQuantity = Some q, displayUnit = Some (if q = Fin 1 then ''cup'' else ''cups'')\<rparr>
          else if bu = ''unit'' then \<lparr>displayQuantity = Some q, displayUnit = Some []\<rparr>
          else \<lparr>displayQuantity = None, displayUnit = None\<rparr>)"

text \<open>\<open>s.split(sep)\<close> for a separator that is not empty.\<close>

function splitAcc :: "char \<Rightarrow> string \<Rightarrow> string \<Rightarrow> string \<Rightarrow> string list" where
  "splitAcc p ps acc [] = [rev acc]"
| "splitAcc p ps acc (c # cs) =
     (if startsWith (c # cs) (p # ps)
      then rev acc # splitAcc p ps [] (drop (length ps) cs)
      else splitAcc p ps (c # acc) cs)"
  by pat_completeness auto
termination
  by (relation "measure (\<lambda>(p, ps, acc, s). length s)") auto

definition split :: "string \<Rightarrow> string \<Rightarrow> string list" where
  "split s sep = (case sep of p # ps \<Rightarrow> splitAcc p ps [] s | [] \<Rightarrow> map (\<lambda>c. [c]) s)"

definition join :: "string list \<Rightarrow> string \<Rightarrow> string" where
  "join ws sep = (case ws of [] \<Rightarrow> [] | w # ws' \<Rightarrow> w @ concat (map (\<lambda>v. sep @ v) ws'))"

text \<open>\<open>word.charAt(0).toUpperCase() + word.slice(1)\<close>\<close>

definition capitalize :: "string \<Rightarrow> string" where
  "capitalize word = (case word of [] \<Rightarrow> [] | c # cs \<Rightarrow> toUpperChar c @ cs)"

definition formatDisplayName :: "string \<Rightarrow> string \<Rightarrow> string" where
  "formatDisplayName canonical bn =
     (if canonical = ''salt and pepper'' then ''Salt and black pepper''
      else
        join (map (\<lambda>(index, word). if index = 0 \<or> length word > 3 then capitalize word else word)
                  (enumerate 0 (split bn '' ''))) '' '')"

text \<open>The local helper of the aggregator that shares its name with the parser's normalizer.\<close>

definition normalizeCanonicalNameAgg :: "string \<Rightarrow> string" where
  "normalizeCanonicalNameAgg n = trim (toLowerCase n)"

definition baseUnitString :: "BaseUnit \<Rightarrow> string" where
  "baseUnitString b =
     (case b of Tsp \<Rightarrow> ''tsp'' | Tbsp \<Rightarrow> ''tbsp'' | Cup \<Rightarrow> ''cup'' | Unit \<Rightarrow> ''unit'' | NoUnit \<Rightarrow> ''none'')"

definition groupKey :: "ParsedIngredient \<Rightarrow> string" where
  "groupKey ing =
     (let canonical =
            (if canonicalName ing \<noteq> [] then canonicalName ing
             else normalizeCanonicalNameAgg (if baseName ing \<noteq> [] then baseName ing else name ing));
          bu = (case baseUnit ing of Some b \<Rightarrow> baseUnitString b | None \<Rightarrow> ''none'')
      in canonical @ ''::'' @ bu)"

text \<open>
  The \<open>Map\<close> from keys to groups keeps the keys in the order of their first insertion; it is
  an association list, and \<open>pushGroup\<close> is the body of the grouping loop.
\<close>

fun pushGroup :: "string \<Rightarrow> ParsedIngredient \<Rightarrow> (string \<times> ParsedIngredient list) list
    \<Rightarrow> (string \<times> ParsedIngredient list) list" where
  "pushGroup key ing [] = [(key, [ing])]"
| "pushGroup key ing ((k, g) # groups) =
     (if k = key then (k, g @ [ing]) # groups else (k, g) # pushGroup key ing groups)"

definition groupIngredients :: "ParsedIngredient list \<Rightarrow> (string \<times> ParsedIngredient list) list" where
  "groupIngredients parsed = foldl (\<lambda>groups ing. pushGroup (groupKey ing) ing groups) [] parsed"

record AggregatedIngredient =
  agg_name :: string
  agg_canonicalName :: string
  agg_baseName :: string
  agg_totalQuantity :: "jsnum option"
  agg_unit :: "string option"
  agg_baseUnit :: string
  agg_lines :: "ParsedIngredient list"
  agg_section :: string

text \<open>\<open>q || 0\<close>: \<open>NaN\<close> is falsy, like \<open>undefined\<close> and \<open>null\<close>.\<close>

definition orZero :: "jsnum jsval \<Rightarrow> jsnum" where
  "orZero q = (case q of Value v \<Rightarrow> (if v = NaN then Fin 0 else v) | _ \<Rightarrow> Fin 0)"

text \<open>\<open>q !== undefined && q !== null\<close>\<close>

definition hasQuantity :: "ParsedIngredient \<Rightarrow> bool" where
  "hasQuantity ing = (quantityInBaseUnits ing \<noteq> Undefined \<and> quantityInBaseUnits ing \<noteq> Null)"

text \<open>
  The \<open>reduce\<close> over the lines that have a quantity: a sum of doubles from left to right,
  starting at 0.
\<close>

definition sumQuantities :: "ParsedIngredient list \<Rightarrow> jsnum" where
  "sumQuantities items =
     foldl (\<lambda>sum ing. jsAdd sum (orZero (quantityInBaseUnits ing))) (Fin 0) items"

text \<open>
  The body of the loop over the groups. \<open>key.split("::")\<close> is destructured into its first two
  parts, of which a key always has both; reading \<open>ingredients[0].baseName\<close> of an empty group
  would raise. The value \<open>finalDisplayQuantity\<close> of the source is computed and never used.
\<close>

definition aggregateGroup :: "string \<Rightarrow> ParsedIngredient list \<Rightarrow> error + AggregatedIngredient" where
  "aggregateGroup key ingredients =
     (let parts = split key ''::'';
          canonical = (case nthOpt parts 0 of Some v \<Rightarrow> v | None \<Rightarrow> []);
          bu = (case nthOpt parts 1 of Some v \<Rightarrow> v | None \<Rightarrow> []);
          itemsWithQuantity = filter hasQuantity ingredients;
          itemsWithoutQuantity = filter (\<lambda>ing. \<not> hasQuantity ing) ingredients;
          totalQuantity =
            (if itemsWithQuantity \<noteq> []
             then Some (sumQuantities itemsWithQuantity)
             else None)
      in case ingredients of
           [] \<Rightarrow> Inl TypeError
         | first # rest \<Rightarrow>
             (let bn = (if baseName first \<noteq> [] then baseName first else name first);
                  displayName = formatDisplayName canonical bn;
                  formatted = formatQuantity totalQuantity bu displayName;
                  shown =
                    (if bu = ''unit'' \<and> \<not> falsyStr (unit first) then unit first
                     else if bu = ''unit'' \<and> falsyStr (displayUnit formatted) then Some []
                     else displayUnit formatted)
              in if canonical = ''salt and pepper'' then
                   Inr \<lparr>agg_name = displayName, agg_canonicalName = canonical,
                        agg_baseName = baseName first, agg_totalQuantity = None, agg_unit = None,
                        agg_baseUnit = ''none'', agg_lines = ingredients, agg_section = ''Spices''\<rparr>
                 else if itemsWithQuantity \<noteq> [] \<and> itemsWithoutQuantity = [] then
                   Inr \<lparr>agg_name = displayName, agg_canonicalName = canonical,
                        agg_baseName = baseName first, agg_totalQuantity = totalQuantity,
                        agg_unit = shown, agg_baseUnit = bu, agg_lines = ingredients,
                        agg_section = ''Other''\<rparr>
                 else if itemsWithQuantity = [] \<and> itemsWithoutQuantity \<noteq> [] then
                   Inr \<lparr>agg_name = displayName, agg_canonicalName = canonical,
                        agg_baseName = baseName first, agg_totalQuantity = None, agg_unit = None,
                        agg_baseUnit = ''none'', agg_lines = ingredients, agg_section = ''Other''\<rparr>
                 else
                   Inr \<lparr>agg_name = displayName, agg_canonicalName = canonical,
                        agg_baseName = baseName first, agg_totalQuantity = totalQuantity,
                        agg_unit = shown, agg_baseUnit = bu, agg_lines = ingredients,
                        agg_section = ''Other''\<rparr>))"

definition aggregateIngredients :: "ParsedIngredient list \<Rightarrow> error + AggregatedIngredient list" where
  "aggregateIngredients parsed =
     collect (map (\<lambda>(key, ingredients). aggregateGroup key ingredients) (groupIngredients parsed))"

text \<open>
  Parsing and then aggregating, as the grocery-list route does: \<open>aggregateIngredients\<close> reads
  the fields of every element, so an \<open>undefined\<close> element would raise.
\<close>

definition parseAndAggregate :: "string list \<Rightarrow> bool \<Rightarrow> AiResponse \<Rightarrow> error + AggregatedIngredient list" where
  "parseAndAggregate lines useAI response =
     (case parseIngredients lines useAI response of
        Inl e \<Rightarrow> Inl e
      | Inr parsed \<Rightarrow>
          (if list_all (\<lambda>p. p \<noteq> None) parsed then aggregateIngredients (map the parsed)
           else Inl TypeError))"

text \<open>
  Views of an aggregated ingredient, for comparing the results of two runs: the key of an
  entry, which is the key of its lines; the entry without its lines; and what of an entry
  does not depend on the order of its lines (the canonical name, the base unit, whether
  there is a total, the section, and the lines as a multiset).
\<close>

definition entryKey :: "AggregatedIngredient \<Rightarrow> string" where
  "entryKey e = groupKey (hd (agg_lines e))"

definition withoutLines :: "AggregatedIngredient \<Rightarrow> AggregatedIngredient" where
  "withoutLines e = e\<lparr>agg_lines := []\<rparr>"

definition entrySummary :: "AggregatedIngredient
    \<Rightarrow> string \<times> string \<times> bool \<times> string \<times> ParsedIngredient multiset" where
  "entrySummary e =
     (agg_canonicalName e, agg_baseUnit e, agg_totalQuantity e \<noteq> None, agg_section e,
      mset (agg_lines e))"

section \<open>The Categorizer\<close>

datatype IngredientCategory = Produce | MeatFish | DryGoods | Dairy | Spices | Pantry | Other

text \<open>
  \<open>postProcessSection\<close>, the table of overrides: \<open>txt\<close> is the display name in lower case and
  \<open>canonicalText\<close> the canonical name in lower case, the empty string when there is none.
\<close>

definition postProcessSection :: "string \<Rightarrow> IngredientCategory \<Rightarrow> string option \<Rightarrow> IngredientCategory" where
  "postProcessSection nm aiSection canonical =
     (let txt = toLowerCase nm;
          canonicalText = (case canonical of Some c \<Rightarrow> toLowerCase c | None \<Rightarrow> []);
          either = (\<lambda>w. includesStr txt w \<or> includesStr canonicalText w);
          neither = (\<lambda>w. \<not> includesStr txt w \<and> \<not> includesStr canonicalText w)
      in if either ''bell pepper'' then Produce
         else if either ''salmon'' then MeatFish
         else if either ''shrimp'' then MeatFish
         else if either ''chicken'' then MeatFish
         else if either ''beef'' then MeatFish
         else if either ''pork'' then MeatFish
         else if either ''turkey'' \<and> neither ''broth'' then MeatFish
         else if either ''fish'' \<and> neither ''sauce'' then MeatFish
         else if either ''zucchini'' then Produce
         else if either ''onion'' \<and> neither ''powder'' then Produce
         else if either ''garlic'' \<and> neither ''powder'' then Produce
         else if either ''lemon'' then Produce
         else if either ''lime'' then Produce
         else if either ''cilantro'' then Produce
         else if either ''parsley'' then Produce
         else if either ''basil'' then Produce
         else if either ''broccoli'' then Produce
         else if either ''spinach'' then Produce
         else if either ''carrot'' then Produce
         else if either ''tomato'' \<and> neither ''paste'' then Produce
         else if either ''lettuce'' then Produce
         else if either ''cucumber'' then Produce
         else if either ''avocado'' then Produce
         else if either ''cauliflower'' then Produce
         else if either ''snap pea'' then Produce
         else if either ''green onion'' then Produce
         else if includesStr txt ''parmesan'' then Dairy
         else if includesStr txt ''feta'' then Dairy
         else if includesStr txt ''mozzarella'' then Dairy
         else if includesStr txt ''cheese'' \<and> \<not> includesStr txt ''sauce'' then Dairy
         else if includesStr txt ''olive oil'' then Pantry
         else if includesStr txt ''sesame oil'' then Pantry
         else if includesStr txt ''coconut oil'' then Pantry
         else if includesStr txt ''vinegar'' then Pantry
         else if includesStr txt ''broth'' then Pantry
         else if includesStr txt ''stock'' then Pantry
         else if includesStr txt ''coconut milk'' then Pantry
         else if includesStr txt ''fish sauce'' then Pantry
         else if includesStr txt ''soy sauce'' then Pantry
         else if includesStr txt ''cumin'' \<or> includesStr txt ''paprika'' \<or> includesStr txt ''turmeric''
                 \<or> includesStr txt ''cinnamon'' \<or> includesStr txt ''chili'' \<or> includesStr txt ''coriander''
                 \<or> includesStr txt ''garlic powder'' \<or> includesStr txt ''onion powder'' then Spices
         else aiSection)"

text \<open>
  The classification service. What the code sees of a call is either an exception, of the
  call itself or of \<open>cleanAndParseJSON\<close> (\<open>None\<close>), or the record \<open>categories\<close> from cleaned
  names to sections. \<open>normalizeForAICategorization\<close> only prepares the text that is shown to
  the service and looked up in its answer; the functions below take it as the argument
  \<open>normalizeForAI\<close>, and what is proved of them holds for every such function.
\<close>

type_synonym Categories = "string \<rightharpoonup> IngredientCategory"

record IngredientInfo =
  i_name :: string
  i_canonicalName :: "string option"
  i_baseName :: "string option"

definition categorizeIngredient :: "(string \<Rightarrow> string) \<Rightarrow> string \<Rightarrow> bool \<Rightarrow> string option \<Rightarrow> string option
    \<Rightarrow> Categories option \<Rightarrow> IngredientCategory" where
  "categorizeIngredient normalizeForAI nm useAI canonical bn response =
     (let ingredientName = (case orElse canonical (orElse bn (Some nm)) of Some v \<Rightarrow> v | None \<Rightarrow> nm) in
      if \<not> useAI then postProcessSection nm Other None
      else
        (case response of
           Some categories \<Rightarrow>
             (let normalizedForAI = normalizeForAI ingredientName;
                  aiSection = (case categories (toLowerCase normalizedForAI) of Some c \<Rightarrow> c | None \<Rightarrow> Other)
              in postProcessSection nm aiSection (orElse canonical bn))
         | None \<Rightarrow> postProcessSection nm Other None))"

text \<open>\<open>ingredients?.find(ing => ing.name === name)\<close>\<close>

definition findIngredient :: "IngredientInfo list \<Rightarrow> string \<Rightarrow> IngredientInfo option" where
  "findIngredient ingredients nm = List.find (\<lambda>ing. i_name ing = nm) ingredients"

text \<open>\<open>ingredient?.canonicalName || ingredient?.baseName\<close>\<close>

definition canonicalOf :: "IngredientInfo option \<Rightarrow> string option" where
  "canonicalOf ingredient =
     (case ingredient of None \<Rightarrow> None | Some ing \<Rightarrow> orElse (i_canonicalName ing) (i_baseName ing))"

text \<open>
  \<open>categorizeIngredients\<close>: the result and \<open>nameToNormalized\<close> are \<open>Map\<close>s, filled by loops over
  the names. A missing \<open>ingredients\<close> argument is the empty list.
\<close>

definition categorizeIngredients :: "(string \<Rightarrow> string) \<Rightarrow> string list \<Rightarrow> bool \<Rightarrow> IngredientInfo list
    \<Rightarrow> Categories option \<Rightarrow> (string \<rightharpoonup> IngredientCategory)" where
  "categorizeIngredients normalizeForAI names useAI ingredients response =
     (if \<not> useAI \<or> names = [] then foldl (\<lambda>result nm. result(nm \<mapsto> Other)) Map.empty names
      else
        (let nameToNormalized =
               foldl (\<lambda>m nm.
                        (let bn = (case orElse (canonicalOf (findIngredient ingredients nm)) (Some nm) of
                                     Some v \<Rightarrow> v | None \<Rightarrow> nm)
                         in m(nm \<mapsto> normalizeForAI bn)))
                     Map.empty names
         in case response of
              Some categories \<Rightarrow>
                foldl (\<lambda>result nm.
                         (let normalized = (case orElse (nameToNormalized nm) (Some nm) of
                                              Some v \<Rightarrow> v | None \<Rightarrow> nm);
                              aiSection = (case categories (toLowerCase normalized) of
                                             Some c \<Rightarrow> c | None \<Rightarrow> Other);
                              canonical = canonicalOf (findIngredient ingredients nm)
                          in result(nm \<mapsto> postProcessSection nm aiSection canonical)))
                      Map.empty names
            | None \<Rightarrow> foldl (\<lambda>result nm. result(nm \<mapsto> Other)) Map.empty names))"

section \<open>Canonical names\<close>

lemma dropWhile_fix: "xs = [] \<or> \<not> P (hd xs) \<Longrightarrow> dropWhile P xs = xs"
  by (cases xs) auto

lemma trim_idem: "trim (trim s) = trim s"
proof -
  let ?t = "dropWhile isSpace s"
  let ?u = "dropWhile isSpace (rev ?t)"
  have "rev ?u = [] \<or> \<not> isSpace (hd (rev ?u))"
  proof (cases "?u = []")
    case True
    then show ?thesis by simp
  next
    case False
    obtain pre where pre: "rev ?t = pre @ ?u"
      by (metis takeWhile_dropWhile_id)
    then have "?t = rev ?u @ rev pre"
      by (metis rev_append rev_rev_ident)
    with False have "hd (rev ?u) = hd ?t" and "?t \<noteq> []"
      by (metis hd_append2 rev_is_Nil_conv, metis Nil_is_append_conv rev_is_Nil_conv)
    then show ?thesis
      by (metis hd_dropWhile)
  qed
  then have "dropWhile isSpace (rev ?u) = rev ?u"
    by (rule dropWhile_fix)
  then show ?thesis
    by (simp add: trim_def)
qed

text \<open>
  The only synonyms of the table whose key, or whose key in the plural, is a salt and pepper
  variant are those of \<open>salt and pepper\<close> itself, and no inherited property is one.
\<close>

lemma nameEntries_variant:
  "list_all (\<lambda>(k, v). saltPepperVariant k \<or> saltPepperVariant (k @ ''s'') \<longrightarrow> v = ''salt and pepper'')
     nameEntries"
  by code_simp

lemma inheritedProperties_variant:
  "list_all (\<lambda>(k, v). \<not> saltPepperVariant k \<and> \<not> saltPepperVariant (k @ ''s'')) inheritedProperties"
  by code_simp

lemma salt_and_pepper_facts:
  "saltPepperVariant ''salt and pepper''"
  "trim ''salt and pepper'' = ''salt and pepper''"
  "matchSaltAndPepper ''salt and pepper''"
  "matchToTaste ''pepper'' ''salt and pepper'' = None"
  by code_simp+

lemma getProperty_variant:
  assumes "saltPepperVariant x \<or> saltPepperVariant (x @ ''s'')"
  shows "getProperty NAME_NORMALIZATION_MAP x = Own ''salt and pepper''
         \<or> getProperty NAME_NORMALIZATION_MAP x = Absent"
proof (cases "NAME_NORMALIZATION_MAP x")
  case (Some v)
  then have "(x, v) \<in> set nameEntries"
    unfolding NAME_NORMALIZATION_MAP_def by (rule map_of_SomeD)
  then have "v = ''salt and pepper''"
    using nameEntries_variant assms by (auto simp: list_all_iff)
  then show ?thesis
    using Some by (simp add: getProperty_def)
next
  case None
  have "map_of inheritedProperties x = None"
  proof (cases "map_of inheritedProperties x")
    case (Some s)
    then have "(x, s) \<in> set inheritedProperties"
      by (rule map_of_SomeD)
    then show ?thesis
      using inheritedProperties_variant assms by (auto simp: list_all_iff)
  qed simp
  then show ?thesis
    using None by (simp add: getProperty_def)
qed

lemma endsWith_s: "endsWith x ''s'' \<Longrightarrow> x = butlast x @ ''s''"
proof -
  assume "endsWith x ''s''"
  then obtain t where "rev x = CHR ''s'' # t"
    by (cases "rev x") (auto simp: endsWith_def)
  then have "x = rev t @ ''s''"
    by (metis rev.simps(2) rev_rev_ident)
  then show ?thesis
    by (metis butlast_snoc)
qed

lemma special_case_variant:
  assumes "saltPepperVariant x"
  shows "(let normalized4 = (if matchSaltAndPepper x \<or> matchToTaste ''salt'' x \<noteq> None
             then ''salt and pepper'' else x)
          in if matchToTaste ''pepper'' normalized4 = Some [] then ''salt and pepper'' else normalized4)
         = ''salt and pepper''"
  using assms by (auto simp: saltPepperVariant_def Let_def salt_and_pepper_facts)

text \<open>
  Claim C8, as the code has it. The Name Normalizer maps to the key \<open>salt and pepper\<close> every
  name that, in lower case and trimmed, starts with \<open>salt\<close>, \<open>and\<close> or \<open>&\<close>, \<open>pepper\<close> (white space
  between them or none), or starts with \<open>salt to taste\<close>, or is \<open>pepper to taste\<close>. The
  synonym table and the plural rule, which come first, do not get in the way.
\<close>

theorem normalizeCanonicalName_salt_and_pepper:
  assumes "saltPepperVariant (trim (toLowerCase n))"
  shows "normalizeCanonicalName n = Inr ''salt and pepper''"
proof -
  let ?l = "trim (toLowerCase n)"
  define n1 where "n1 =
      (if endsWith ?l ''s'' \<and> \<not> endsWith ?l ''ss'' \<and> \<not> endsWith ?l ''us''
       then (case getProperty NAME_NORMALIZATION_MAP (butlast ?l) of
               Own v \<Rightarrow> Inr v
             | Inherited s \<Rightarrow> Inl TypeError
             | Absent \<Rightarrow>
                 (case getProperty NAME_NORMALIZATION_MAP ?l of
                    Own v \<Rightarrow> Inr v
                  | Inherited s \<Rightarrow> Inl TypeError
                  | Absent \<Rightarrow> Inr ?l))
       else Inr ?l)"
  define third where "third = (\<lambda>m. case getProperty NAME_NORMALIZATION_MAP (trim m) of
                       Own v \<Rightarrow> v
                     | Inherited s \<Rightarrow> s
                     | Absent \<Rightarrow> trim m)"
  have whole: "getProperty NAME_NORMALIZATION_MAP ?l = Own ''salt and pepper''
               \<or> getProperty NAME_NORMALIZATION_MAP ?l = Absent"
    using assms by (simp add: getProperty_variant)
  have singular: "getProperty NAME_NORMALIZATION_MAP (butlast ?l) = Own ''salt and pepper''
               \<or> getProperty NAME_NORMALIZATION_MAP (butlast ?l) = Absent"
    if "endsWith ?l ''s''"
    using assms endsWith_s [OF that] getProperty_variant [of "butlast ?l"] by simp
  have n1: "n1 = Inr ?l \<or> n1 = Inr ''salt and pepper''"
    unfolding n1_def using whole singular by auto
  then obtain m where m: "n1 = Inr m" and variant1: "saltPepperVariant m" and trim1: "trim m = m"
    using assms salt_and_pepper_facts trim_idem by auto
  have "third m = m \<or> third m = ''salt and pepper''"
    unfolding third_def trim1 using getProperty_variant [of m] variant1 by auto
  then have "saltPepperVariant (third m)"
    using variant1 salt_and_pepper_facts by auto
  then have "(let normalized4 = (if matchSaltAndPepper (third m) \<or> matchToTaste ''salt'' (third m) \<noteq> None
             then ''salt and pepper'' else third m)
          in if matchToTaste ''pepper'' normalized4 = Some [] then ''salt and pepper'' else normalized4)
         = ''salt and pepper''"
    by (rule special_case_variant)
  moreover have "normalizeCanonicalName n =
         (case n1 of Inl e \<Rightarrow> Inl e
          | Inr m \<Rightarrow>
         Inr (let normalized4 = (if matchSaltAndPepper (third m) \<or> matchToTaste ''salt'' (third m) \<noteq> None
             then ''salt and pepper'' else third m)
          in if matchToTaste ''pepper'' normalized4 = Some [] then ''salt and pepper'' else normalized4))"
    by (simp only: normalizeCanonicalName_def third_def n1_def Let_def)
  ultimately show ?thesis
    using m by simp
qed

theorem normalizeCanonicalName_salt_and_pepper_witness:
  "saltPepperVariant (trim (toLowerCase '' Salt  &  Peppers, freshly ground''))
   \<and> normalizeCanonicalName '' Salt  &  Peppers, freshly ground'' = Inr ''salt and pepper''"
proof -
  have variant: "saltPepperVariant (trim (toLowerCase '' Salt  &  Peppers, freshly ground''))"
    by code_simp
  show ?thesis
    using normalizeCanonicalName_salt_and_pepper [OF variant] variant by simp
qed

text \<open>
  The claim as the specification states it names \<open>pepper and salt\<close> among the variants. No
  test of the normalizer starts with \<open>pepper\<close> but the one for \<open>pepper to taste\<close>, so that name
  is its own canonical key.
\<close>

theorem normalizeCanonicalName_pepper_and_salt:
  "normalizeCanonicalName ''pepper and salt'' = Inr ''pepper and salt''"
  by code_simp

section \<open>Unit conversion\<close>



lemma unit_lookup: "UNIT_MAP k = Some info \<Longrightarrow> (k, info) \<in> set unitEntries"
  unfolding UNIT_MAP_def by (rule map_of_SomeD)

lemma unitEntries_factor: "UNIT_MAP k = Some info \<Longrightarrow> factor info = 1"
proof -
  assume "UNIT_MAP k = Some info"
  then have "(k, info) \<in> set unitEntries"
    by (rule unit_lookup)
  moreover have "list_all (\<lambda>(k, info). factor info = 1) unitEntries"
    by code_simp
  ultimately show ?thesis
    by (auto simp: list_all_iff)
qed


text \<open>Without a unit a quantity of zero is kept, as a count.\<close>

lemma normalizeUnit_no_unit:
  "q \<noteq> Undefined \<Longrightarrow> normalizeUnit None q = (Some Unit, q)"
  "q \<noteq> Undefined \<Longrightarrow> normalizeUnit (Some []) q = (Some Unit, q)"
  by (simp_all add: normalizeUnit_def falsyStr_def)

text \<open>
  Claim C1. For every line parsed with a recognised unit and a numeric quantity,
  \<open>quantityInBaseUnits\<close> is the quantity times the factor of the unit (16 for cups into
  tablespoons, 1 otherwise). The code does so for every quantity but zero
  (\<open>normalizeUnit_recognized\<close>): \<open>!quantity\<close> takes a quantity of 0 for a missing one, so the
  line \<open>0 cups milk\<close>, whose unit \<open>cups\<close> is in the table, gets the base unit \<open>none\<close> and no
  quantity in base units, where the guard for a line without a unit, three lines above,
  tests \<open>quantity !== undefined\<close> and keeps the 0.
\<close>

theorem normalizeUnit_zero_quantity_dropped:
  "map_sum id (map_option (\<lambda>p. (quantity p, unit p, baseUnit p, quantityInBaseUnits p)))
     (parseIngredientRegex ''0 cups milk'')
     = Inr (Some (Value (Fin 0), Some ''cups'', Some NoUnit, Undefined))
   \<and> UNIT_MAP ''cups'' = Some \<lparr>info_baseUnit = Cup, factor = 1\<rparr>
   \<and> map_sum id (map_option (\<lambda>p. (quantity p, unit p, baseUnit p, quantityInBaseUnits p)))
     (parseIngredientRegex ''0 eggs'')
     = Inr (Some (Value (Fin 0), None, Some Unit, Value (Fin 0)))"
  by code_simp

text \<open>
  Claim C6. If the base unit of a parsed record is \<open>none\<close>, its quantity in base units is
  undefined; a quantity without a unit makes the base unit \<open>unit\<close>. The second half holds
  (\<open>normalizeUnit_no_unit\<close>). The first fails for a unit that is blank but not empty, which
  only the text-interpretation service can supply: the guards test the unit before it is
  trimmed, the trimmed unit is the empty key of the table, whose base unit is \<open>none\<close>, and the
  quantity is kept.
\<close>

theorem normalizeUnit_blank_unit_keeps_quantity:
  "map_sum id (map (map_option (\<lambda>p. (quantity p, unit p, baseUnit p, quantityInBaseUnits p))))
     (parseIngredients [''a pinch of salt''] True
        (Some [Some \<lparr>ai_name = Some ''salt'', ai_quantity = Value (Fin 2), ai_unit = Some '' '',
                      ai_originalText = Some ''a pinch of salt'', ai_raw = None\<rparr>]))
     = Inr [Some (Value (Fin 2), Some '' '', Some NoUnit, Value (Fin 2))]
   \<and> normalizeUnit (Some '' '') (Value (Fin 2)) = (Some NoUnit, Value (Fin 2))"
  by code_simp

text \<open>
  Claim C10. The quantity in base units of a parsed record is defined if and only if its base
  unit is not \<open>none\<close>. The code breaks both directions on answers of the text-interpretation
  service. A quantity of \<open>null\<close> without a unit passes the guard \<open>quantity !== undefined\<close>, so
  the record has the base unit \<open>unit\<close> and the quantity \<open>null\<close> in base units, which the
  aggregator (it tests \<open>!== undefined && !== null\<close>) counts as no quantity. And a blank unit
  gives the base unit \<open>none\<close> with a quantity, as for claim C6.
\<close>

theorem normalizeUnit_null_quantity_counts_as_unit:
  "map_sum id (\<lambda>p. (quantity p, unit p, baseUnit p, quantityInBaseUnits p))
     (parseIngredient ''a pinch of salt'' True
        (Some (Some \<lparr>ai_name = Some ''salt'', ai_quantity = Null, ai_unit = None,
                      ai_originalText = Some ''a pinch of salt'', ai_raw = None\<rparr>)))
     = Inr (Null, None, Some Unit, Null)
   \<and> map_sum id (\<lambda>p. (quantity p, unit p, baseUnit p, quantityInBaseUnits p))
     (parseIngredient ''a pinch of salt'' True
        (Some (Some \<lparr>ai_name = Some ''salt'', ai_quantity = Value (Fin 1), ai_unit = Some '' '',
                      ai_originalText = Some ''a pinch of salt'', ai_raw = None\<rparr>)))
     = Inr (Value (Fin 1), Some '' '', Some NoUnit, Value (Fin 1))"
  by code_simp

section \<open>Overrides of the categorizer\<close>

text \<open>The override for bell pepper is the first of the table and wins over every answer.\<close>

lemma postProcessSection_bell_pepper:
  assumes "includesStr (toLowerCase nm) ''bell pepper''
           \<or> (\<exists>c. canonical = Some c \<and> includesStr (toLowerCase c) ''bell pepper'')"
  shows "postProcessSection nm aiSection canonical = Produce"
  using assms
proof (elim disjE exE conjE)
  assume "includesStr (toLowerCase nm) ''bell pepper''"
  then show ?thesis
    by (simp add: postProcessSection_def)
next
  fix c
  assume "canonical = Some c" and "includesStr (toLowerCase c) ''bell pepper''"
  then show ?thesis
    by (simp add: postProcessSection_def)
qed

lemma foldl_map_upd:
  "foldl (\<lambda>m k. m(k \<mapsto> f k)) m0 ks k' = (if k' \<in> set ks then Some (f k') else m0 k')"
  by (induction ks arbitrary: m0) auto

text \<open>When the classification call succeeds, every name gets its section from the overrides.\<close>

lemma categorizeIngredients_success:
  assumes "nm \<in> set names"
  shows "\<exists>aiSection. categorizeIngredients normalizeForAI names True ingredients (Some categories) nm
           = Some (postProcessSection nm aiSection (canonicalOf (findIngredient ingredients nm)))"
proof -
  from assms have "names \<noteq> []" by auto
  then show ?thesis
    using assms by (simp add: categorizeIngredients_def Let_def foldl_map_upd) blast
qed

lemma categorizeIngredients_success_bell_pepper:
  assumes "nm \<in> set names" and "includesStr (toLowerCase nm) ''bell pepper''"
  shows "categorizeIngredients normalizeForAI names True ingredients (Some categories) nm = Some Produce"
proof -
  obtain aiSection where
    "categorizeIngredients normalizeForAI names True ingredients (Some categories) nm
       = Some (postProcessSection nm aiSection (canonicalOf (findIngredient ingredients nm)))"
    using categorizeIngredients_success [OF assms(1)] by blast
  then show ?thesis
    by (simp add: postProcessSection_bell_pepper assms(2))
qed

text \<open>When the call fails, or without the service, every name gets \<open>Other\<close>.\<close>

lemma categorizeIngredients_failure:
  "categorizeIngredients normalizeForAI names True ingredients None nm
     = (if nm \<in> set names then Some Other else None)"
  by (simp add: categorizeIngredients_def Let_def foldl_map_upd)

lemma categorizeIngredients_without_AI:
  "categorizeIngredients normalizeForAI names False ingredients response nm
     = (if nm \<in> set names then Some Other else None)"
  by (simp add: categorizeIngredients_def foldl_map_upd)

text \<open>
  Claim C4. If the classification call fails for the whole batch, \<open>categorizeIngredients\<close>
  still gives every ingredient its section from the table of overrides, with \<open>Other\<close> only
  when no override matches, and does not fail. The code does not fail, but its \<open>catch\<close> block
  sets \<open>Other\<close> for every name without consulting the table
  (\<open>categorizeIngredients_failure\<close>): \<open>Chicken Breasts\<close> gets \<open>Other\<close>, where the table says
  \<open>Meat/Fish\<close> and where \<open>categorizeIngredient\<close>, for one name, applies the table in its
  \<open>catch\<close> block.
\<close>

theorem categorizeIngredients_failure_skips_overrides:
  "categorizeIngredients normalizeForAI [''Chicken Breasts''] True [] None ''Chicken Breasts'' = Some Other
   \<and> postProcessSection ''Chicken Breasts'' Other None = MeatFish
   \<and> categorizeIngredient normalizeForAI ''Chicken Breasts'' True None None None = MeatFish"
  by code_simp

theorem categorizeIngredients_failure_skips_overrides_witness:
  "categorizeIngredients trim [''Chicken Breasts''] True [] None ''Chicken Breasts'' = Some Other"
  using categorizeIngredients_failure_skips_overrides [of trim] by simp

text \<open>
  Claim C5. An ingredient whose display name or canonical name contains \<open>bell pepper\<close> is
  always categorized as \<open>Produce\<close>, whatever the classifier answers and whether the call
  succeeds or fails. The table of overrides says so (\<open>postProcessSection_bell_pepper\<close>) and
  the code follows it when the call succeeds (\<open>categorizeIngredients_success_bell_pepper\<close>);
  when the call fails the \<open>catch\<close> block of \<open>categorizeIngredients\<close> leaves the table out and
  the name gets \<open>Other\<close>. (The same defect as for claim C4.)
\<close>

theorem categorizeIngredients_failure_bell_pepper:
  "categorizeIngredients normalizeForAI [''Red Bell Pepper''] True
     [\<lparr>i_name = ''Red Bell Pepper'', i_canonicalName = Some ''bell pepper'',
       i_baseName = Some ''red bell pepper''\<rparr>] None ''Red Bell Pepper'' = Some Other
   \<and> postProcessSection ''Red Bell Pepper'' Other (Some ''bell pepper'') = Produce"
  by code_simp

theorem categorizeIngredients_failure_bell_pepper_witness:
  "categorizeIngredients trim [''Red Bell Pepper''] True
     [\<lparr>i_name = ''Red Bell Pepper'', i_canonicalName = Some ''bell pepper'',
       i_baseName = Some ''red bell pepper''\<rparr>] None ''Red Bell Pepper'' = Some Other"
  using categorizeIngredients_failure_bell_pepper [of trim] by simp

section \<open>Doubles\<close>








text \<open>
  Rounding at work: one tenth and three tenths are not doubles, and one tenth plus two
  tenths is the double above three tenths (\<open>0.1 + 0.2\<close> is \<open>0.30000000000000004\<close>).
\<close>

lemma tenths:
  "round64 (1 / 10) = Fin (3602879701896397 / 36028797018963968)"
  "round64 (3 / 10) = Fin (5404319552844595 / 18014398509481984)"
  "jsAdd (round64 (1 / 10)) (round64 (2 / 10)) = Fin (1351079888211149 / 4503599627370496)"
  "\<not> isDouble (1 / 10)"
  by code_simp+



section \<open>Unit humanisation\<close>

lemma formatQuantity_tbsp_infinity:
  "formatQuantity (Some Infinity) ''tbsp'' nm =
     \<lparr>displayQuantity = Some Infinity, displayUnit = Some ''cups''\<rparr>"
  by (simp add: formatQuantity_def jsGe_def floorDiv_def remIsZero_def)


section \<open>Grouping\<close>

lemma collect_Inr: "collect (map (\<lambda>x. Inr (f x)) xs) = Inr (map f xs)"
  by (induction xs) auto

lemma foldl_pushGroup_same_key:
  assumes "\<forall>x \<in> set xs. groupKey x = k"
  shows "foldl (\<lambda>groups ing. pushGroup (groupKey ing) ing groups) [(k, g)] xs = [(k, g @ xs)]"
  using assms by (induction xs arbitrary: g) auto

lemma groupIngredients_single_key:
  assumes "xs \<noteq> []" and "\<forall>x \<in> set xs. groupKey x = k"
  shows "groupIngredients xs = [(k, xs)]"
proof (cases xs)
  case Nil
  with assms show ?thesis by simp
next
  case (Cons x rest)
  with assms have "groupKey x = k" and "\<forall>y \<in> set rest. groupKey y = k"
    by auto
  then show ?thesis
    using foldl_pushGroup_same_key [of rest k "[x]"] Cons by (simp add: groupIngredients_def)
qed

lemma map_filter_total:
  assumes "\<forall>l \<in> set ls. f l \<noteq> None"
  shows "List.map_filter f ls = map (\<lambda>l. the (f l)) ls"
  using assms by (induction ls) auto

lemma collect_regex:
  assumes "\<forall>l \<in> set lines. \<exists>r. parseIngredientRegex l = Inr r"
  shows "collect (map parseIngredientRegex lines) = Inr (map regexResult lines)"
  using assms by (induction lines) (auto simp: regexResult_def)

text \<open>When a pattern resolves every line, the records of the patterns are the result.\<close>

lemma parseIngredients_all_simple:
  assumes "\<forall>l \<in> set lines. \<exists>p. parseIngredientRegex l = Inr (Some p)"
  shows "parseIngredients lines useAI response = Inr (map regexResult lines)"
proof -
  have simple: "\<forall>l \<in> set lines. regexResult l \<noteq> None"
    using assms by (auto simp: regexResult_def)
  then have "complexLinesOf lines = []"
    by (simp add: complexLinesOf_def filter_empty_conv)
  moreover have "map Some (simpleResultsOf lines) = map regexResult lines"
    using simple by (auto simp: simpleResultsOf_def map_filter_total)
  moreover have "collect (map parseIngredientRegex lines) = Inr (map regexResult lines)"
    using assms by (auto intro: collect_regex)
  ultimately show ?thesis
    by (simp add: parseIngredients_def Let_def)
qed

lemma split_key: "split ''salt and pepper::none'' ''::'' = [''salt and pepper'', ''none'']"
  by code_simp

lemma aggregateGroup_salt_and_pepper:
  "aggregateGroup ''salt and pepper::none'' (first # rest) =
     Inr \<lparr>agg_name = ''Salt and black pepper'', agg_canonicalName = ''salt and pepper'',
          agg_baseName = baseName first, agg_totalQuantity = None, agg_unit = None,
          agg_baseUnit = ''none'', agg_lines = first # rest, agg_section = ''Spices''\<rparr>"
  by (simp add: aggregateGroup_def split_key nthOpt_def formatDisplayName_def Let_def)

lemma three_lines:
  "list_all (\<lambda>l. case parseIngredientRegex l of
                    Inr (Some p) \<Rightarrow> groupKey p = ''salt and pepper::none'' | _ \<Rightarrow> False)
     [''Salt and pepper to taste'', ''salt to taste'', ''pepper to taste'']"
  by code_simp

text \<open>
  Claim C2. Parsing and then aggregating any combination, not empty, of the lines
  \<open>Salt and pepper to taste\<close>, \<open>salt to taste\<close> and \<open>pepper to taste\<close> gives exactly one
  aggregated ingredient, named \<open>Salt and black pepper\<close>, with no total quantity and the
  section \<open>Spices\<close>; every line is among its lines. The three lines are resolved by the
  patterns, so neither the flag \<open>useAI\<close> nor the text-interpretation service matters.
\<close>

theorem salt_and_pepper_collapse:
  assumes "lines \<noteq> []"
    and "set lines \<subseteq> {''Salt and pepper to taste'', ''salt to taste'', ''pepper to taste''}"
  shows "\<exists>e. parseAndAggregate lines useAI response = Inr [e]
           \<and> agg_name e = ''Salt and black pepper'' \<and> agg_totalQuantity e = None
           \<and> agg_section e = ''Spices'' \<and> length (agg_lines e) = length lines"
proof -
  have each: "\<exists>p. parseIngredientRegex l = Inr (Some p) \<and> groupKey p = ''salt and pepper::none''"
    if "l \<in> set lines" for l
    using that assms(2) three_lines by (auto split: sum.splits option.splits)
  let ?parsed = "map (\<lambda>l. the (regexResult l)) lines"
  have simple: "\<forall>l \<in> set lines. regexResult l \<noteq> None"
    using each by (fastforce simp: regexResult_def)
  have "parseIngredients lines useAI response = Inr (map regexResult lines)"
    using each by (blast intro: parseIngredients_all_simple)
  moreover have "list_all (\<lambda>p. p \<noteq> None) (map regexResult lines)"
    using simple by (simp add: list_all_iff)
  moreover have "map the (map regexResult lines) = ?parsed"
    by simp
  ultimately have pa: "parseAndAggregate lines useAI response = aggregateIngredients ?parsed"
    by (simp add: parseAndAggregate_def comp_def)
  have keys: "\<forall>p \<in> set ?parsed. groupKey p = ''salt and pepper::none''"
    using each by (fastforce simp: regexResult_def)
  have nonempty: "?parsed \<noteq> []"
    using assms(1) by simp
  then obtain first rest where fr: "?parsed = first # rest"
    by (cases ?parsed) auto
  have "groupIngredients ?parsed = [(''salt and pepper::none'', ?parsed)]"
    using nonempty keys by (rule groupIngredients_single_key)
  then have "aggregateIngredients ?parsed =
      Inr [\<lparr>agg_name = ''Salt and black pepper'', agg_canonicalName = ''salt and pepper'',
          agg_baseName = baseName first, agg_totalQuantity = None, agg_unit = None,
          agg_baseUnit = ''none'', agg_lines = ?parsed, agg_section = ''Spices''\<rparr>]"
    by (simp add: aggregateIngredients_def fr aggregateGroup_salt_and_pepper)
  with pa show ?thesis
    by simp
qed

theorem salt_and_pepper_collapse_witness:
  "\<exists>e. parseAndAggregate
          [''salt to taste'', ''Salt and pepper to taste'', ''pepper to taste'', ''salt to taste'']
          True None = Inr [e]
       \<and> agg_name e = ''Salt and black pepper'' \<and> agg_totalQuantity e = None
       \<and> agg_section e = ''Spices'' \<and> length (agg_lines e) = 4"
  using salt_and_pepper_collapse
    [of "[''salt to taste'', ''Salt and pepper to taste'', ''pepper to taste'', ''salt to taste'']"
        True None]
  by (simp add: eval_nat_numeral)

section \<open>Entries\<close>





lemma collect_all_Inr:
  assumes "\<forall>x \<in> set xs. \<exists>v. f x = Inr v"
  shows "collect (map f xs) = Inr (map (\<lambda>x. projr (f x)) xs)"
  using assms by (induction xs) auto

text \<open>A group that is not empty gives an entry, and its lines are the group.\<close>

lemma aggregateGroup_lines:
  assumes "g \<noteq> []"
  shows "\<exists>e. aggregateGroup k g = Inr e \<and> agg_lines e = g"
proof -
  from assms obtain a as where g: "g = a # as" by (cases g) auto
  show ?thesis unfolding g aggregateGroup_def Let_def list.case
    by (simp only: if_split[where P="\<lambda>r. \<exists>e. r = Inr e \<and> agg_lines e = a # as"]) simp
qed

text \<open>The fields of an entry that do not read the first line of the group.\<close>

lemma aggregateGroup_fields:
  fixes c cs k
  defines "e \<equiv> projr (aggregateGroup k (c # cs))"
  defines "salt \<equiv> (case nthOpt (split k ''::'') 0 of Some v \<Rightarrow> v | None \<Rightarrow> []) = ''salt and pepper''"
  shows "agg_canonicalName e = (case nthOpt (split k ''::'') 0 of Some v \<Rightarrow> v | None \<Rightarrow> [])"
    and "agg_lines e = c # cs"
    and "agg_section e = (if salt then ''Spices'' else ''Other'')"
    and "agg_totalQuantity e =
          (if salt \<or> filter hasQuantity (c # cs) = [] then None
           else Some (sumQuantities (filter hasQuantity (c # cs))))"
    and "agg_baseUnit e =
          (if salt \<or> filter hasQuantity (c # cs) = [] then ''none''
           else (case nthOpt (split k ''::'') 1 of Some v \<Rightarrow> v | None \<Rightarrow> []))"
proof -
  have ne: "filter hasQuantity (c # cs) = [] \<Longrightarrow> filter (\<lambda>ing. \<not> hasQuantity ing) (c # cs) \<noteq> []"
    by (auto simp: filter_empty_conv)
  show "agg_canonicalName e = (case nthOpt (split k ''::'') 0 of Some v \<Rightarrow> v | None \<Rightarrow> [])"
    unfolding e_def aggregateGroup_def Let_def list.case
    by (simp only: if_split[where P="\<lambda>r. agg_canonicalName (projr r) = _"]) simp
  show "agg_lines e = c # cs"
    unfolding e_def aggregateGroup_def Let_def list.case
    by (simp only: if_split[where P="\<lambda>r. agg_lines (projr r) = _"]) simp
  show "agg_section e = (if salt then ''Spices'' else ''Other'')"
    unfolding e_def salt_def aggregateGroup_def Let_def list.case
    by (simp only: if_split[where P="\<lambda>r. agg_section (projr r) = _"]) simp
  show "agg_totalQuantity e =
          (if salt \<or> filter hasQuantity (c # cs) = [] then None
           else Some (sumQuantities (filter hasQuantity (c # cs))))"
    unfolding e_def salt_def aggregateGroup_def Let_def list.case
    by (simp only: if_split[where P="\<lambda>r. agg_totalQuantity (projr r) = _"]) simp
  show "agg_baseUnit e =
          (if salt \<or> filter hasQuantity (c # cs) = [] then ''none''
           else (case nthOpt (split k ''::'') 1 of Some v \<Rightarrow> v | None \<Rightarrow> []))"
    using ne unfolding e_def salt_def aggregateGroup_def Let_def list.case
    by (simp only: if_split[where P="\<lambda>r. agg_baseUnit (projr r) = _"]) auto
qed


section \<open>Cups\<close>






section \<open>The batch\<close>

text \<open>Without the service the lines that no pattern resolves are left out of the result.\<close>

lemma parseIngredients_without_AI:
  assumes "collect (map parseIngredientRegex lines) = Inr regexResults"
  shows "parseIngredients lines False response = Inr (map Some (simpleResultsOf lines))"
  using assms by (simp add: parseIngredients_def Let_def)

text \<open>
  Claim C3. For every list of N lines and every response of the text-interpretation service,
  \<open>parseIngredients\<close> returns exactly N records, the i-th of them derived from the i-th line.
  The code guards the call of the service and what it makes of the response, but not its own
  table lookups: the plural rule of the Name Normalizer looks the singular \<open>constructor\<close> of
  the name \<open>constructors\<close> up in the synonym table, finds the function that every object
  inherits under that name, and calls \<open>trim\<close> on it. The pattern tiers run before the \<open>try\<close>
  block and the fallback runs in the \<open>catch\<close> block, so the exception leaves
  \<open>parseIngredients\<close>, whatever the response is, and no record is returned for any line.
  And when the function is called without the service, the lines that no pattern resolves
  are dropped.
\<close>

theorem parseIngredients_inherited_name_raises:
  "parseIngredients [''2 eggs'', ''2 constructors''] True response = Inl TypeError
   \<and> parseIngredients [''2 eggs'', ''constructors''] True None = Inl TypeError
   \<and> map_sum id length (parseIngredients [''2 eggs'', ''a pinch of salt''] False response) = Inr 1"
  by code_simp

section \<open>The order of the lines\<close>

lemma pushGroup_keys:
  "map fst (pushGroup k x gs) = (if k \<in> set (map fst gs) then map fst gs else map fst gs @ [k])"
  by (induction gs) force+

lemma pushGroup_lookup:
  "map_of (pushGroup k x gs) =
     (map_of gs)(k \<mapsto> (case map_of gs k of Some g \<Rightarrow> g @ [x] | None \<Rightarrow> [x]))"
  by (induction gs) (auto simp: fun_eq_iff)

lemma groupIngredients_snoc:
  "groupIngredients (xs @ [x]) = pushGroup (groupKey x) x (groupIngredients xs)"
  by (simp add: groupIngredients_def)

text \<open>
  The groups: one for each key that occurs, each key once, and the group of a key holds the
  records with that key in the order of the input.
\<close>

lemma groupIngredients_invariant:
  "distinct (map fst (groupIngredients xs))
   \<and> fst ` set (groupIngredients xs) = groupKey ` set xs
   \<and> (\<forall>k. map_of (groupIngredients xs) k =
         (if k \<in> groupKey ` set xs then Some (filter (\<lambda>p. groupKey p = k) xs) else None))"
proof (induction xs rule: rev_induct)
  case Nil
  then show ?case by (simp add: groupIngredients_def)
next
  case (snoc x xs)
  let ?g = "groupIngredients xs"
  from snoc have dist: "distinct (map fst ?g)"
    and keys: "fst ` set ?g = groupKey ` set xs"
    and look: "\<And>k. map_of ?g k =
         (if k \<in> groupKey ` set xs then Some (filter (\<lambda>p. groupKey p = k) xs) else None)"
    by auto
  have absent: "filter (\<lambda>p. groupKey p = k) xs = []" if "k \<notin> groupKey ` set xs" for k
    using that by (auto simp: filter_empty_conv)
  have "distinct (map fst (pushGroup (groupKey x) x ?g))"
    using dist by (auto simp: pushGroup_keys)
  moreover have "fst ` set (pushGroup (groupKey x) x ?g) = groupKey ` set (xs @ [x])"
  proof -
    have "set (map fst (pushGroup (groupKey x) x ?g)) = insert (groupKey x) (set (map fst ?g))"
      by (auto simp: pushGroup_keys)
    then show ?thesis
      using keys by auto
  qed
  moreover have "map_of (pushGroup (groupKey x) x ?g) k =
         (if k \<in> groupKey ` set (xs @ [x])
          then Some (filter (\<lambda>p. groupKey p = k) (xs @ [x])) else None)" for k
    using absent by (auto simp: pushGroup_lookup look)
  ultimately show ?case
    by (simp only: groupIngredients_snoc) blast
qed

lemma groupIngredients_keys:
  "distinct (map fst (groupIngredients xs))"
  "set (map fst (groupIngredients xs)) = groupKey ` set xs"
  using groupIngredients_invariant [of xs] by simp_all

lemma groupIngredients_member:
  assumes "(k, g) \<in> set (groupIngredients xs)"
  shows "g = filter (\<lambda>p. groupKey p = k) xs" and "k \<in> groupKey ` set xs" and "g \<noteq> []"
proof -
  have dist: "distinct (map fst (groupIngredients xs))"
    and look: "map_of (groupIngredients xs) k =
         (if k \<in> groupKey ` set xs then Some (filter (\<lambda>p. groupKey p = k) xs) else None)"
    using groupIngredients_invariant [of xs] by auto
  have found: "map_of (groupIngredients xs) k = Some g"
    using assms dist by simp
  show k: "k \<in> groupKey ` set xs"
    using found look by (cases "k \<in> groupKey ` set xs") auto
  then show g: "g = filter (\<lambda>p. groupKey p = k) xs"
    using found look by simp
  show "g \<noteq> []"
    using g k by (auto simp: filter_empty_conv)
qed

lemma groupIngredients_eq:
  "groupIngredients xs =
     map (\<lambda>k. (k, filter (\<lambda>p. groupKey p = k) xs)) (map fst (groupIngredients xs))"
proof -
  have "\<forall>kg \<in> set (groupIngredients xs). kg = (fst kg, filter (\<lambda>p. groupKey p = fst kg) xs)"
    using groupIngredients_member(1) by (metis prod.collapse)
  then have "map (\<lambda>kg. kg) (groupIngredients xs) =
        map (\<lambda>kg. (fst kg, filter (\<lambda>p. groupKey p = fst kg) xs)) (groupIngredients xs)"
    by (intro map_cong) auto
  then show ?thesis
    by (simp add: comp_def)
qed

text \<open>Nothing raises, and the entries are those of the keys, in the order of the keys.\<close>

lemma aggregateIngredients_eq:
  "aggregateIngredients xs =
     Inr (map (\<lambda>k. projr (aggregateGroup k (filter (\<lambda>p. groupKey p = k) xs)))
              (map fst (groupIngredients xs)))"
proof -
  let ?f = "\<lambda>kg. aggregateGroup (fst kg) (snd kg)"
  have all: "\<forall>kg \<in> set (groupIngredients xs). \<exists>e. ?f kg = Inr e"
  proof
    fix kg assume "kg \<in> set (groupIngredients xs)"
    then have "(fst kg, snd kg) \<in> set (groupIngredients xs)" by simp
    then have "snd kg \<noteq> []" by (rule groupIngredients_member(3))
    then obtain e where "aggregateGroup (fst kg) (snd kg) = Inr e"
      using aggregateGroup_lines by blast
    then show "\<exists>e. ?f kg = Inr e" ..
  qed
  have same: "projr (?f kg) = projr (aggregateGroup (fst kg) (filter (\<lambda>p. groupKey p = fst kg) xs))"
    if "kg \<in> set (groupIngredients xs)" for kg
  proof -
    from that have "(fst kg, snd kg) \<in> set (groupIngredients xs)" by simp
    then have "snd kg = filter (\<lambda>p. groupKey p = fst kg) xs" by (rule groupIngredients_member(1))
    then show ?thesis by simp
  qed
  have "aggregateIngredients xs = collect (map ?f (groupIngredients xs))"
    unfolding aggregateIngredients_def by (simp only: case_prod_unfold)
  also have "\<dots> = Inr (map (\<lambda>kg. projr (?f kg)) (groupIngredients xs))"
    using all by (rule collect_all_Inr)
  also have "map (\<lambda>kg. projr (?f kg)) (groupIngredients xs) =
      map (\<lambda>kg. projr (aggregateGroup (fst kg) (filter (\<lambda>p. groupKey p = fst kg) xs)))
          (groupIngredients xs)"
    by (rule map_cong [OF refl]) (rule same)
  also have "\<dots> = map (\<lambda>k. projr (aggregateGroup k (filter (\<lambda>p. groupKey p = k) xs)))
          (map fst (groupIngredients xs))"
    by (simp only: map_map comp_def)
  finally show ?thesis .
qed

text \<open>
  The total of an entry is the sum, from left to right, over those of its lines that have a
  quantity.
\<close>

lemma aggregateGroup_total:
  fixes k g
  assumes "g \<noteq> []"
  defines "e \<equiv> projr (aggregateGroup k g)"
  shows "agg_totalQuantity e =
          (if agg_canonicalName e = ''salt and pepper'' \<or> filter hasQuantity (agg_lines e) = []
           then None else Some (sumQuantities (filter hasQuantity (agg_lines e))))"
proof -
  from assms(1) obtain c cs where g: "g = c # cs" by (cases g) auto
  show ?thesis
    unfolding e_def g
    by (simp only: aggregateGroup_fields(1,2) aggregateGroup_fields(4) [of k c cs])
qed

text \<open>The summary of an entry is a function of the key and of the multiset of the group.\<close>

lemma aggregateGroup_summary:
  assumes "mset g = mset g'" and "g \<noteq> []"
  shows "entrySummary (projr (aggregateGroup k g)) = entrySummary (projr (aggregateGroup k g'))"
proof -
  from assms obtain a as b bs where g: "g = a # as" and g': "g' = b # bs"
    by (cases g; cases g') auto
  have sets: "set g = set g'"
    using assms(1) by (rule mset_eq_setD)
  have with_q: "filter hasQuantity g = [] \<longleftrightarrow> filter hasQuantity g' = []"
    using sets by (auto simp: filter_empty_conv)
  show ?thesis
    unfolding entrySummary_def g g' aggregateGroup_fields
    using with_q assms(1) unfolding g g' by simp
qed

lemma filter_key_mset:
  assumes "mset xs = mset ys"
  shows "mset (filter (\<lambda>p. groupKey p = k) xs) = mset (filter (\<lambda>p. groupKey p = k) ys)"
  using assms by simp

lemma groupIngredients_keys_mset:
  assumes "mset xs = mset ys"
  shows "mset (map fst (groupIngredients xs)) = mset (map fst (groupIngredients ys))"
proof -
  have "set xs = set ys"
    using assms by (rule mset_eq_setD)
  then have sets: "set (map fst (groupIngredients xs)) = set (map fst (groupIngredients ys))"
    by (simp only: groupIngredients_keys(2))
  have "distinct (map fst (groupIngredients xs))" "distinct (map fst (groupIngredients ys))"
    by (rule groupIngredients_keys(1))+
  from set_eq_iff_mset_eq_distinct [OF this] sets show ?thesis
    by blast
qed

text \<open>The groups of distinct keys share no record, and the groups of all keys hold them all.\<close>

lemma concat_groups:
  assumes "distinct ks"
  shows "mset (concat (map (\<lambda>k. filter (\<lambda>p. f p = k) zs) ks)) = filter_mset (\<lambda>p. f p \<in> set ks) (mset zs)"
  using assms
proof (induction ks)
  case Nil
  then show ?case by simp
next
  case (Cons k ks)
  then have "k \<notin> set ks" and "distinct ks" by simp_all
  have "filter_mset (\<lambda>p. f p = k) (mset zs) + filter_mset (\<lambda>p. f p \<in> set ks) (mset zs)
      = filter_mset (\<lambda>p. f p \<in> set (k # ks)) (mset zs)"
    using \<open>k \<notin> set ks\<close> by (auto simp: multiset_eq_iff)
  with Cons.IH [OF \<open>distinct ks\<close>] show ?case by simp
qed

text \<open>
  Claim C9, as the code has it. \<open>aggregateIngredients\<close> never raises. Its entries have
  distinct keys, every record of the input is among the lines of exactly one entry, the
  lines of an entry are the records of its key in the order of the input, and the total of
  an entry is the sum of doubles, from left to right, over those lines that have a
  quantity. For two lists with the same records in a different order the two results have
  the same summaries: the canonical names, the base units, the sections, the lines as
  multisets, and whether there is a total. The total itself depends on the order of the
  lines, because the sum of doubles does, and the fields \<open>name\<close>, \<open>baseName\<close> and \<open>unit\<close> of
  an entry are read from the first line of its group.
\<close>

theorem aggregateIngredients_permutation:
  "(\<exists>es. aggregateIngredients zs = Inr es
      \<and> distinct (map entryKey es)
      \<and> mset (concat (map agg_lines es)) = mset zs
      \<and> (\<forall>e \<in> set es.
            agg_lines e \<noteq> []
            \<and> agg_lines e = filter (\<lambda>p. groupKey p = entryKey e) zs
            \<and> agg_totalQuantity e =
                (if agg_canonicalName e = ''salt and pepper'' \<or> filter hasQuantity (agg_lines e) = []
                 then None else Some (sumQuantities (filter hasQuantity (agg_lines e))))))
   \<and> (mset xs = mset ys \<longrightarrow>
        (\<exists>es es'. aggregateIngredients xs = Inr es \<and> aggregateIngredients ys = Inr es'
           \<and> mset (map entrySummary es) = mset (map entrySummary es')))"
proof (intro conjI impI)
  define mk where "mk zs k = projr (aggregateGroup k (filter (\<lambda>p. groupKey p = k) zs))" for zs k
  define keys where "keys zs = map fst (groupIngredients zs)" for zs
  have eq: "aggregateIngredients zs = Inr (map (mk zs) (keys zs))" for zs
    unfolding mk_def keys_def by (rule aggregateIngredients_eq)
  have key_set: "set (keys zs) = groupKey ` set zs" for zs
    unfolding keys_def by (rule groupIngredients_keys(2))
  have key_distinct: "distinct (keys zs)" for zs
    unfolding keys_def by (rule groupIngredients_keys(1))
  have group: "filter (\<lambda>p. groupKey p = k) zs \<noteq> []" if "k \<in> set (keys zs)" for zs k
    using that unfolding key_set by (auto simp: filter_empty_conv)
  have lines: "agg_lines (mk zs k) = filter (\<lambda>p. groupKey p = k) zs" if "k \<in> set (keys zs)" for zs k
    using aggregateGroup_lines [OF group [OF that], of k] unfolding mk_def by auto
  have key: "entryKey (mk zs k) = k" if "k \<in> set (keys zs)" for zs k
  proof -
    let ?g = "filter (\<lambda>p. groupKey p = k) zs"
    from group [OF that] have "hd ?g \<in> set ?g" by (rule hd_in_set)
    then have "groupKey (hd ?g) = k" by simp
    then show ?thesis by (simp add: entryKey_def lines [OF that])
  qed
  have total: "agg_totalQuantity (mk zs k) =
        (if agg_canonicalName (mk zs k) = ''salt and pepper'' \<or> filter hasQuantity (agg_lines (mk zs k)) = []
         then None else Some (sumQuantities (filter hasQuantity (agg_lines (mk zs k)))))"
    if "k \<in> set (keys zs)" for zs k
    unfolding mk_def using group [OF that] by (rule aggregateGroup_total)
  show "\<exists>es. aggregateIngredients zs = Inr es
      \<and> distinct (map entryKey es)
      \<and> mset (concat (map agg_lines es)) = mset zs
      \<and> (\<forall>e \<in> set es.
            agg_lines e \<noteq> []
            \<and> agg_lines e = filter (\<lambda>p. groupKey p = entryKey e) zs
            \<and> agg_totalQuantity e =
                (if agg_canonicalName e = ''salt and pepper'' \<or> filter hasQuantity (agg_lines e) = []
                 then None else Some (sumQuantities (filter hasQuantity (agg_lines e)))))"
  proof (intro exI conjI ballI)
    show "aggregateIngredients zs = Inr (map (mk zs) (keys zs))"
      by (rule eq)
    have "map entryKey (map (mk zs) (keys zs)) = map (\<lambda>k. k) (keys zs)"
      unfolding map_map comp_def by (rule map_cong [OF refl]) (rule key)
    then show "distinct (map entryKey (map (mk zs) (keys zs)))"
      using key_distinct [of zs] by simp
    have groups: "map agg_lines (map (mk zs) (keys zs)) = map (\<lambda>k. filter (\<lambda>p. groupKey p = k) zs) (keys zs)"
      unfolding map_map comp_def by (rule map_cong [OF refl]) (rule lines)
    have "mset (concat (map agg_lines (map (mk zs) (keys zs))))
        = filter_mset (\<lambda>p. groupKey p \<in> set (keys zs)) (mset zs)"
      unfolding groups using key_distinct by (rule concat_groups)
    also have "\<dots> = mset zs"
      unfolding key_set by (rule filter_mset_eq_conv [THEN iffD2]) auto
    finally show "mset (concat (map agg_lines (map (mk zs) (keys zs)))) = mset zs" .
  next
    fix e assume "e \<in> set (map (mk zs) (keys zs))"
    then obtain k where k: "k \<in> set (keys zs)" and e: "e = mk zs k" by auto
    show "agg_lines e \<noteq> []"
      unfolding e using lines [OF k] group [OF k] by simp
    show "agg_lines e = filter (\<lambda>p. groupKey p = entryKey e) zs"
      unfolding e using lines [OF k] key [OF k] by simp
    show "agg_totalQuantity e =
                (if agg_canonicalName e = ''salt and pepper'' \<or> filter hasQuantity (agg_lines e) = []
                 then None else Some (sumQuantities (filter hasQuantity (agg_lines e))))"
      unfolding e by (rule total [OF k])
  qed
  assume perm: "mset xs = mset ys"
  have same: "entrySummary (mk xs k) = entrySummary (mk ys k)" if "k \<in> set (keys xs)" for k
    unfolding mk_def using filter_key_mset [OF perm, of k] group [OF that]
    by (rule aggregateGroup_summary)
  have "mset (map entrySummary (map (mk xs) (keys xs)))
      = image_mset (\<lambda>k. entrySummary (mk xs k)) (mset (keys xs))"
    by (simp add: comp_def)
  also have "\<dots> = image_mset (\<lambda>k. entrySummary (mk ys k)) (mset (keys xs))"
    by (rule image_mset_cong) (simp add: same)
  also have "mset (keys xs) = mset (keys ys)"
    unfolding keys_def using perm by (rule groupIngredients_keys_mset)
  also have "image_mset (\<lambda>k. entrySummary (mk ys k)) (mset (keys ys))
      = mset (map entrySummary (map (mk ys) (keys ys)))"
    by (simp add: comp_def)
  finally have "mset (map entrySummary (map (mk xs) (keys xs)))
      = mset (map entrySummary (map (mk ys) (keys ys)))" .
  with eq show "\<exists>es es'. aggregateIngredients xs = Inr es \<and> aggregateIngredients ys = Inr es'
           \<and> mset (map entrySummary es) = mset (map entrySummary es')"
    by blast
qed

theorem aggregateIngredients_permutation_witness:
  "(let a = \<lparr>raw = Some ''2 cloves garlic'', name = ''garlic'', baseName = ''garlic'',
              prepNote = None, canonicalName = ''garlic'', quantity = Value (Fin 2),
              unit = Some ''cloves'', baseUnit = Some Unit, quantityInBaseUnits = Value (Fin 2),
              originalText = Some ''2 cloves garlic''\<rparr>;
        b = \<lparr>raw = Some ''1 cup milk'', name = ''milk'', baseName = ''milk'',
              prepNote = None, canonicalName = ''milk'', quantity = Value (Fin 1),
              unit = Some ''cup'', baseUnit = Some Tbsp, quantityInBaseUnits = Value (Fin 16),
              originalText = Some ''1 cup milk''\<rparr>;
        c = \<lparr>raw = Some ''1 clove garlic'', name = ''garlic'', baseName = ''garlic'',
              prepNote = None, canonicalName = ''garlic'', quantity = Value (Fin 1),
              unit = Some ''clove'', baseUnit = Some Unit, quantityInBaseUnits = Value (Fin 1),
              originalText = Some ''1 clove garlic''\<rparr>
    in mset [a, b, c] = mset [c, b, a]
       \<and> (\<exists>es es'. aggregateIngredients [a, b, c] = Inr es \<and> aggregateIngredients [c, b, a] = Inr es'
             \<and> mset (map entrySummary es) = mset (map entrySummary es')
             \<and> distinct (map entryKey es)
             \<and> mset (concat (map agg_lines es)) = mset [a, b, c]))"
proof -
  define a where "a = \<lparr>raw = Some ''2 cloves garlic'', name = ''garlic'', baseName = ''garlic'',
              prepNote = None, canonicalName = ''garlic'', quantity = Value (Fin 2),
              unit = Some ''cloves'', baseUnit = Some Unit, quantityInBaseUnits = Value (Fin 2),
              originalText = Some ''2 cloves garlic''\<rparr>"
  define b where "b = \<lparr>raw = Some ''1 cup milk'', name = ''milk'', baseName = ''milk'',
              prepNote = None, canonicalName = ''milk'', quantity = Value (Fin 1),
              unit = Some ''cup'', baseUnit = Some Tbsp, quantityInBaseUnits = Value (Fin 16),
              originalText = Some ''1 cup milk''\<rparr>"
  define c where "c = \<lparr>raw = Some ''1 clove garlic'', name = ''garlic'', baseName = ''garlic'',
              prepNote = None, canonicalName = ''garlic'', quantity = Value (Fin 1),
              unit = Some ''clove'', baseUnit = Some Unit, quantityInBaseUnits = Value (Fin 1),
              originalText = Some ''1 clove garlic''\<rparr>"
  have m: "mset [a, b, c] = mset [c, b, a]"
    by (simp add: add_mset_commute)
  from aggregateIngredients_permutation [of "[a, b, c]" "[a, b, c]" "[c, b, a]"] m
  have "\<exists>es es'. aggregateIngredients [a, b, c] = Inr es \<and> aggregateIngredients [c, b, a] = Inr es'
             \<and> mset (map entrySummary es) = mset (map entrySummary es')
             \<and> distinct (map entryKey es)
             \<and> mset (concat (map agg_lines es)) = mset [a, b, c]"
    by (elim conjE exE) auto
  with m show ?thesis
    unfolding Let_def a_def [symmetric] b_def [symmetric] c_def [symmetric] by blast
qed

text \<open>
  The entries themselves depend on the order. The unit shown for a counted ingredient is the
  unit of the first line of its group: the first two records below are what the pattern
  tier returns for the lines \<open>2 cloves garlic\<close> and \<open>1 clove garlic\<close>. And the total depends on
  the order in which the doubles are added: the lines \<open>1/3 cup milk\<close>, \<open>2/3 cup milk\<close> and
  \<open>1 cup milk\<close> add up to 32 tablespoons, shown as 2 cups, in this order, and to
  31.999999999999996 tablespoons, shown as 1 cup, when the first line comes last. The entries
  are compared without their lines.
\<close>

theorem aggregateIngredients_depends_on_order:
  "(let a = \<lparr>raw = Some ''2 cloves garlic'', name = ''garlic'', baseName = ''garlic'',
              prepNote = None, canonicalName = ''garlic'', quantity = Value (Fin 2),
              unit = Some ''cloves'', baseUnit = Some Unit, quantityInBaseUnits = Value (Fin 2),
              originalText = Some ''2 cloves garlic''\<rparr>;
        b = \<lparr>raw = Some ''1 clove garlic'', name = ''garlic'', baseName = ''garlic'',
              prepNote = None, canonicalName = ''garlic'', quantity = Value (Fin 1),
              unit = Some ''clove'', baseUnit = Some Unit, quantityInBaseUnits = Value (Fin 1),
              originalText = Some ''1 clove garlic''\<rparr>
    in parseIngredients [''2 cloves garlic'', ''1 clove garlic''] True None = Inr [Some a, Some b]
       \<and> map_sum id (map withoutLines) (aggregateIngredients [a, b]) =
           Inr [\<lparr>agg_name = ''Garlic'', agg_canonicalName = ''garlic'', agg_baseName = ''garlic'',
                 agg_totalQuantity = Some (Fin 3), agg_unit = Some ''cloves'',
                 agg_baseUnit = ''unit'', agg_lines = [], agg_section = ''Other''\<rparr>]
       \<and> map_sum id (map withoutLines) (aggregateIngredients [b, a]) =
           Inr [\<lparr>agg_name = ''Garlic'', agg_canonicalName = ''garlic'', agg_baseName = ''garlic'',
                 agg_totalQuantity = Some (Fin 3), agg_unit = Some ''clove'',
                 agg_baseUnit = ''unit'', agg_lines = [], agg_section = ''Other''\<rparr>])
   \<and> map_sum id (map withoutLines)
        (parseAndAggregate [''1/3 cup milk'', ''2/3 cup milk'', ''1 cup milk''] True None) =
        Inr [\<lparr>agg_name = ''Milk'', agg_canonicalName = ''milk'', agg_baseName = ''milk'',
              agg_totalQuantity = Some (Fin 32), agg_unit = Some ''cups'',
              agg_baseUnit = ''tbsp'', agg_lines = [], agg_section = ''Other''\<rparr>]
   \<and> map_sum id (map withoutLines)
        (parseAndAggregate [''2/3 cup milk'', ''1 cup milk'', ''1/3 cup milk''] True None) =
        Inr [\<lparr>agg_name = ''Milk'', agg_canonicalName = ''milk'', agg_baseName = ''milk'',
              agg_totalQuantity = Some (Fin (9007199254740991 / 281474976710656)),
              agg_unit = Some ''cup'',
              agg_baseUnit = ''tbsp'', agg_lines = [], agg_section = ''Other''\<rparr>]"
  by code_simp

end
